theory Spec2Isabelle
  imports Main "HOL-Library.Sublist"
begin

section \<open>JavaScript strings and numbers\<close>

text \<open>
  The handlers of the server use a handful of JavaScript string operations. Strings are
  modelled as \<open>string\<close>; a value that may be \<open>undefined\<close> is an \<open>option\<close>.
  Numbers are integers, row ids are natural numbers. The timestamp columns
  \<^verbatim>\<open>created_at\<close> and \<^verbatim>\<open>updated_at\<close> are left out of the rows, SQL string
  comparison is equality, and every query reaches the database (no connection error).
\<close>

definition startsWith :: "string \<Rightarrow> string \<Rightarrow> bool" where
  \<comment> \<open>\<^verbatim>\<open>s.startsWith(p)\<close>\<close>
  "startsWith s p = (take (length p) s = p)"

function js_split :: "string \<Rightarrow> string \<Rightarrow> string list" where
  \<comment> \<open>\<^verbatim>\<open>s.split(sep)\<close> for a separator that is not empty (\<^verbatim>\<open>'Bearer '\<close>, \<^verbatim>\<open>':'\<close>,
      \<^verbatim>\<open>' '\<close> in the source): the pieces between the occurrences of \<open>sep\<close>, found
      from left to right\<close>
  "js_split [] sep = ['''']"
| "js_split (c # cs) sep =
     (if sep \<noteq> [] \<and> startsWith (c # cs) sep
      then [] # js_split (drop (length sep) (c # cs)) sep
      else (case js_split cs sep of
              [] \<Rightarrow> [c # []]
            | w # ws \<Rightarrow> (c # w) # ws))"
  by pat_completeness auto
termination
  by (relation "measure (\<lambda>(s, sep). length s)") (auto simp: startsWith_def)

declare js_split.simps [simp del]

definition nth_opt :: "'a list \<Rightarrow> nat \<Rightarrow> 'a option" where
  \<comment> \<open>\<^verbatim>\<open>xs[i]\<close>: \<open>undefined\<close> past the end of the array\<close>
  "nth_opt xs i = (if i < length xs then Some (xs ! i) else None)"

definition quoted :: "string \<Rightarrow> string" where
  \<comment> \<open>a word between double quotes inside a message\<close>
  "quoted s = CHR 0x22 # s @ [CHR 0x22]"

definition truthy :: "string option \<Rightarrow> bool" where
  \<comment> \<open>a string-valued field is truthy when it is present and not the empty string\<close>
  "truthy v = (case v of None \<Rightarrow> False | Some s \<Rightarrow> s \<noteq> [])"

definition is_digit :: "char \<Rightarrow> bool" where
  \<comment> \<open>the class \<^verbatim>\<open>\\d\<close> of a JavaScript regular expression\<close>
  "is_digit c = (c \<in> set ''0123456789'')"

definition digit_char :: "nat \<Rightarrow> char" where
  "digit_char d = ''0123456789'' ! d"

definition digit_val :: "char \<Rightarrow> nat" where
  "digit_val c = of_char c - 48"

fun nat_str :: "nat \<Rightarrow> string" where
  "nat_str n = (if n < 10 then [digit_char n] else nat_str (n div 10) @ [digit_char (n mod 10)])"

declare nat_str.simps [simp del]

definition js_number_string :: "int \<Rightarrow> string" where
  \<comment> \<open>an integer inside a template literal: \<^verbatim>\<open>`${n}`\<close>\<close>
  "js_number_string i = (if i < 0 then CHR ''-'' # nat_str (nat (- i)) else nat_str (nat i))"

definition parseInt :: "string \<Rightarrow> int" where
  \<comment> \<open>\<^verbatim>\<open>parseInt(ds, 10)\<close> on a string of decimal digits\<close>
  "parseInt ds = int (foldl (\<lambda>a c. 10 * a + digit_val c) 0 ds)"

section \<open>Responses and tables\<close>

record response =
  status :: nat
  success :: bool
  message :: string
  res_id :: "nat option"

definition reply :: "nat \<Rightarrow> bool \<Rightarrow> string \<Rightarrow> nat option \<Rightarrow> response" where
  \<comment> \<open>\<^verbatim>\<open>res.status(code).json({ success, message, id })\<close>\<close>
  "reply code ok msg i = \<lparr>status = code, success = ok, message = msg, res_id = i\<rparr>"

text \<open>
  A table with an \<^verbatim>\<open>AUTO_INCREMENT\<close> primary key: its rows in storage order and the
  id the next \<^verbatim>\<open>INSERT\<close> receives (\<^verbatim>\<open>result.insertId\<close>).
\<close>

record 'r table =
  rows :: "'r list"
  next_id :: nat

section \<open>The identity gate for \<^verbatim>\<open>Bearer username:email\<close>\<close>

record req_user =
  ru_user_name :: string
  ru_email :: string

definition authenticateUserByToken :: "string option \<Rightarrow> response + req_user" where
  \<comment> \<open>the argument is \<^verbatim>\<open>req.headers.authorization\<close>; \<open>Inl\<close> is the response sent instead
      of calling \<^verbatim>\<open>next()\<close>, \<open>Inr\<close> is \<^verbatim>\<open>req.user\<close>\<close>
  "authenticateUserByToken authHeader =
     (case authHeader of
        None \<Rightarrow> Inl (reply 401 False ''Authentication required'' None)
      | Some h \<Rightarrow>
          if h = [] \<or> \<not> startsWith h ''Bearer ''
          then Inl (reply 401 False ''Authentication required'' None)
          else (case nth_opt (js_split h ''Bearer '') 1 of
                  None \<Rightarrow> Inl (reply 401 False ''Authentication failed'' None)
                | Some token \<Rightarrow>
                    (let parts = js_split token '':'';
                         user_name = nth_opt parts 0;
                         email = nth_opt parts 1
                     in if \<not> truthy user_name \<or> \<not> truthy email
                        then Inl (reply 401 False
                          ''Invalid authentication format. Expected: Bearer username:email'' None)
                        else Inr \<lparr>ru_user_name = the user_name, ru_email = the email\<rparr>)))"

section \<open>Saving a task list: \<^verbatim>\<open>POST /api/tasks/save\<close>\<close>

record task_row =
  tr_id :: nat
  tr_user_name :: string
  tr_email :: string
  tr_card_id :: string
  tr_tasks :: string
  tr_theme :: string

record task_db =
  vision_board_tasks :: "task_row table"
  weekly_planner_tasks :: "task_row table"

record save_body =
  b_user_name :: "string option"
  b_email :: "string option"
  b_card_id :: "string option"
  b_tasks :: "string option"
  b_theme :: "string option"
  b_table :: "string option"

definition get_table :: "string \<Rightarrow> task_db \<Rightarrow> task_row table" where
  \<comment> \<open>the table named by \<^verbatim>\<open>${table}\<close> in the query, after the allowlist check\<close>
  "get_table name db =
     (if name = ''vision_board_tasks'' then vision_board_tasks db else weekly_planner_tasks db)"

definition put_table :: "string \<Rightarrow> task_row table \<Rightarrow> task_db \<Rightarrow> task_db" where
  "put_table name t db =
     (if name = ''vision_board_tasks'' then db\<lparr>vision_board_tasks := t\<rparr>
      else db\<lparr>weekly_planner_tasks := t\<rparr>)"

definition tasks_save :: "req_user \<Rightarrow> save_body \<Rightarrow> task_db \<Rightarrow> response \<times> task_db" where
  \<comment> \<open>the route handler, run after the gate has set \<^verbatim>\<open>req.user\<close>\<close>
  "tasks_save requestUser body db =
     (if \<not> truthy (b_user_name body) \<or> \<not> truthy (b_email body) \<or> \<not> truthy (b_card_id body)
         \<or> \<not> truthy (b_tasks body) \<or> \<not> truthy (b_theme body) \<or> \<not> truthy (b_table body)
      then (reply 400 False
        ''Missing required fields: user_name, email, card_id, tasks, theme, or table'' None, db)
      else
       (let user_name = the (b_user_name body); email = the (b_email body);
            card_id = the (b_card_id body); tasks = the (b_tasks body);
            theme = the (b_theme body); table = the (b_table body)
        in if user_name \<noteq> ru_user_name requestUser \<or> email \<noteq> ru_email requestUser
           then (reply 403 False
             ''Authorization mismatch: Cannot save tasks for another user'' None, db)
           else if table \<noteq> ''vision_board_tasks'' \<and> table \<noteq> ''weekly_planner_tasks''
           then (reply 400 False
             (''Invalid table name. Only '' @ quoted ''vision_board_tasks'' @ '' or ''
                @ quoted ''weekly_planner_tasks'' @ '' allowed.'') None, db)
           else
            (let t = get_table table db;
                 existingRecords =
                   filter (\<lambda>r. tr_user_name r = user_name \<and> tr_email r = email
                                \<and> tr_card_id r = card_id \<and> tr_theme r = theme) (rows t)
             in case existingRecords of
                  r # _ \<Rightarrow>
                    (reply 200 True ''Task updated successfully'' (Some (tr_id r)),
                     put_table table
                       (t\<lparr>rows := map (\<lambda>x. if tr_id x = tr_id r then x\<lparr>tr_tasks := tasks\<rparr> else x)
                                     (rows t)\<rparr>) db)
                | [] \<Rightarrow>
                    (reply 201 True ''Task saved successfully'' (Some (next_id t)),
                     put_table table
                       (t\<lparr>rows := rows t @
                            [\<lparr>tr_id = next_id t, tr_user_name = user_name, tr_email = email,
                              tr_card_id = card_id, tr_tasks = tasks, tr_theme = theme\<rparr>],
                          next_id := next_id t + 1\<rparr>) db))))"

definition post_tasks_save :: "string option \<Rightarrow> save_body \<Rightarrow> task_db \<Rightarrow> response \<times> task_db" where
  \<comment> \<open>\<^verbatim>\<open>app.post('/api/tasks/save', authenticateUserByToken, handler)\<close>\<close>
  "post_tasks_save authHeader body db =
     (case authenticateUserByToken authHeader of
        Inl r \<Rightarrow> (r, db)
      | Inr requestUser \<Rightarrow> tasks_save requestUser body db)"

section \<open>Calendar rows and their normalization on load\<close>

text \<open>
  A row of \<^verbatim>\<open>calendar_2025_tasks\<close>: \<^verbatim>\<open>task_type INT NOT NULL\<close>,
  \<^verbatim>\<open>color_code VARCHAR NOT NULL\<close>.
\<close>

record calendar_task =
  ct_id :: nat
  ct_user_name :: string
  ct_email :: string
  ct_task_date :: string
  ct_task_type :: int
  ct_task_description :: string
  ct_color_code :: string
  ct_theme :: string

definition match_here :: "string \<Rightarrow> string option" where
  \<comment> \<open>\<^verbatim>\<open>/selected-color-(\\d+)/\<close> tried at the start of \<open>s\<close>; the capture group is greedy\<close>
  "match_here s =
     (if startsWith s ''selected-color-''
      then (let ds = takeWhile is_digit (drop 15 s) in if ds = [] then None else Some ds)
      else None)"

fun color_type_match :: "string \<Rightarrow> string option" where
  \<comment> \<open>\<^verbatim>\<open>s.match(/selected-color-(\\d+)/)\<close>: the leftmost match, its group 1\<close>
  "color_type_match [] = None"
| "color_type_match (c # cs) =
     (case match_here (c # cs) of Some ds \<Rightarrow> Some ds | None \<Rightarrow> color_type_match cs)"

declare color_type_match.simps [simp del]

definition color_code_shape :: "string \<Rightarrow> bool" where
  \<comment> \<open>the shape \<^verbatim>\<open>selected-color-<N>\<close> read strictly: the prefix, then one or more digits and
      nothing else. The handlers never test it; they test the prefix alone.\<close>
  "color_code_shape s =
     (startsWith s ''selected-color-'' \<and> drop 15 s \<noteq> [] \<and> list_all is_digit (drop 15 s))"

definition normalize_color_code :: "calendar_task \<Rightarrow> calendar_task" where
  \<comment> \<open>first statement of the \<^verbatim>\<open>results.map\<close> callback\<close>
  "normalize_color_code task =
     (if ct_color_code task = [] \<or> \<not> startsWith (ct_color_code task) ''selected-color-''
      then task\<lparr>ct_color_code := ''selected-color-'' @ js_number_string (ct_task_type task)\<rparr>
      else task)"

definition normalize_task_type :: "calendar_task \<Rightarrow> calendar_task" where
  \<comment> \<open>second statement of the callback\<close>
  "normalize_task_type task =
     (if startsWith (ct_color_code task) ''selected-color-''
      then (case color_type_match (ct_color_code task) of
              None \<Rightarrow> task
            | Some ds \<Rightarrow>
                if ds \<noteq> []
                then (let colorType = parseInt ds
                      in if ct_task_type task \<noteq> colorType
                         then task\<lparr>ct_task_type := colorType\<rparr> else task)
                else task)
      else task)"

definition normalize_task :: "calendar_task \<Rightarrow> calendar_task" where
  "normalize_task task = normalize_task_type (normalize_color_code task)"

definition calendar_load_rows :: "string \<Rightarrow> string \<Rightarrow> string \<Rightarrow> calendar_task table \<Rightarrow> calendar_task list" where
  \<comment> \<open>\<^verbatim>\<open>SELECT * FROM calendar_2025_tasks WHERE user_name = ? AND email = ? AND theme = ?\<close>,
      then the normalization of every row; the three load routes share these lines\<close>
  "calendar_load_rows user_name email theme db =
     map normalize_task
       (filter (\<lambda>r. ct_user_name r = user_name \<and> ct_email r = email \<and> ct_theme r = theme)
          (rows db))"

section \<open>Saving a calendar entry: \<^verbatim>\<open>POST /api/calendar/save\<close>\<close>

record calendar_body =
  cb_user_name :: "string option"
  cb_email :: "string option"
  cb_task_date :: "string option"
  cb_task_type :: "int option"
  cb_task_description :: "string option"
  cb_color_code :: "string option"
  cb_theme :: "string option"
  cb_id :: "nat option"
  cb_delete :: bool

definition truthy_num :: "int option \<Rightarrow> bool" where
  \<comment> \<open>a number-valued field is truthy when it is present and not zero\<close>
  "truthy_num v = (case v of None \<Rightarrow> False | Some n \<Rightarrow> n \<noteq> 0)"

definition truthy_id :: "nat option \<Rightarrow> bool" where
  "truthy_id v = (case v of None \<Rightarrow> False | Some n \<Rightarrow> n \<noteq> 0)"

definition set_field :: "'v option \<Rightarrow> ('v \<Rightarrow> 'r \<Rightarrow> 'r) \<Rightarrow> 'r \<Rightarrow> 'r" where
  \<comment> \<open>one optional \<^verbatim>\<open>column = ?\<close> of the dynamic \<^verbatim>\<open>SET\<close> clause: present when the body
      field is not \<open>undefined\<close>\<close>
  "set_field v upd r = (case v of None \<Rightarrow> r | Some x \<Rightarrow> upd x r)"

definition calendar_save ::
  "req_user \<Rightarrow> calendar_body \<Rightarrow> calendar_task table \<Rightarrow> response \<times> calendar_task table" where
  \<comment> \<open>the route handler, run after the gate has set \<^verbatim>\<open>req.user\<close>. In the update by id the
      \<^verbatim>\<open>SET\<close> clause always holds \<^verbatim>\<open>updated_at = NOW()\<close>, so the answer
      \<^verbatim>\<open>No fields to update\<close> of the source is never sent.\<close>
  "calendar_save requestUser body db =
     (if cb_user_name body \<noteq> Some (ru_user_name requestUser)
         \<or> cb_email body \<noteq> Some (ru_email requestUser)
      then (reply 403 False
        ''Authorization mismatch: Cannot save calendar tasks for another user'' None, db)
      else
       (let user_name = the (cb_user_name body); email = the (cb_email body)
        in if cb_delete body \<and> truthy_id (cb_id body)
           then
            (let id = the (cb_id body);
                 hit = (\<lambda>r. ct_id r = id \<and> ct_user_name r = user_name \<and> ct_email r = email);
                 affectedRows = length (filter hit (rows db));
                 db' = db\<lparr>rows := filter (\<lambda>r. \<not> hit r) (rows db)\<rparr>
             in if affectedRows > 0
                then (reply 200 True ''Calendar task deleted successfully'' (Some id), db')
                else (reply 404 False
                  ''Calendar task not found or not owned by this user'' None, db'))
           else if truthy_id (cb_id body)
           then
            (let id = the (cb_id body);
                 hit = (\<lambda>r. ct_id r = id \<and> ct_user_name r = user_name \<and> ct_email r = email);
                 setClauses =
                   set_field (cb_theme body) (\<lambda>v r. r\<lparr>ct_theme := v\<rparr>)
                   \<circ> set_field (cb_task_date body) (\<lambda>v r. r\<lparr>ct_task_date := v\<rparr>)
                   \<circ> set_field (cb_color_code body) (\<lambda>v r. r\<lparr>ct_color_code := v\<rparr>)
                   \<circ> set_field (cb_task_description body) (\<lambda>v r. r\<lparr>ct_task_description := v\<rparr>)
                   \<circ> set_field (cb_task_type body) (\<lambda>v r. r\<lparr>ct_task_type := v\<rparr>);
                 affectedRows = length (filter hit (rows db));
                 db' = db\<lparr>rows := map (\<lambda>r. if hit r then setClauses r else r) (rows db)\<rparr>
             in if affectedRows > 0
                then (reply 200 True ''Calendar task updated successfully'' (Some id), db')
                else (reply 404 False
                  ''Calendar task not found or not owned by this user'' None, db'))
           else if \<not> truthy (cb_task_date body) \<or> \<not> truthy_num (cb_task_type body)
                   \<or> \<not> truthy (cb_task_description body) \<or> \<not> truthy (cb_color_code body)
                   \<or> \<not> truthy (cb_theme body)
           then (reply 400 False
             ''Missing required fields: task_date, task_type, task_description, color_code, or theme''
             None, db)
           else
            (let task_date = the (cb_task_date body); task_type = the (cb_task_type body);
                 task_description = the (cb_task_description body);
                 color_code = the (cb_color_code body); theme = the (cb_theme body);
                 existingRecords =
                   filter (\<lambda>r. ct_user_name r = user_name \<and> ct_email r = email
                                \<and> ct_task_date r = task_date \<and> ct_theme r = theme) (rows db)
             in case existingRecords of
                  r # _ \<Rightarrow>
                    (reply 200 True ''Calendar task updated successfully'' (Some (ct_id r)),
                     db\<lparr>rows := map (\<lambda>x. if ct_id x = ct_id r
                                           then x\<lparr>ct_task_type := task_type,
                                                  ct_task_description := task_description,
                                                  ct_color_code := color_code\<rparr>
                                           else x) (rows db)\<rparr>)
                | [] \<Rightarrow>
                    (reply 201 True ''Calendar task saved successfully'' (Some (next_id db)),
                     db\<lparr>rows := rows db @
                          [\<lparr>ct_id = next_id db, ct_user_name = user_name, ct_email = email,
                            ct_task_date = task_date, ct_task_type = task_type,
                            ct_task_description = task_description, ct_color_code = color_code,
                            ct_theme = theme\<rparr>],
                        next_id := next_id db + 1\<rparr>))))"

definition post_calendar_save ::
  "string option \<Rightarrow> calendar_body \<Rightarrow> calendar_task table \<Rightarrow> response \<times> calendar_task table" where
  \<comment> \<open>\<^verbatim>\<open>app.post('/api/calendar/save', authenticateUserByToken, handler)\<close>\<close>
  "post_calendar_save authHeader body db =
     (case authenticateUserByToken authHeader of
        Inl r \<Rightarrow> (r, db)
      | Inr requestUser \<Rightarrow> calendar_save requestUser body db)"

section \<open>The compatibility delete: \<^verbatim>\<open>DELETE /calendar2025/tasks/:id\<close>\<close>

record delete_request =
  headers_authorization :: "string option"
  params_id :: nat

definition delete_calendar_task ::
  "delete_request \<Rightarrow> calendar_task table \<Rightarrow> response \<times> calendar_task table" where
  \<comment> \<open>\<^verbatim>\<open>DELETE FROM calendar_2025_tasks WHERE id = ?\<close>; \<^verbatim>\<open>affectedRows\<close> is the number of
      rows removed. The route has no gate in front of it.\<close>
  "delete_calendar_task req db =
     (let taskId = params_id req;
          affectedRows = length (filter (\<lambda>r. ct_id r = taskId) (rows db));
          db' = db\<lparr>rows := filter (\<lambda>r. ct_id r \<noteq> taskId) (rows db)\<rparr>
      in if affectedRows > 0
         then (reply 200 True ''Calendar task deleted successfully'' None, db')
         else (reply 404 False ''Calendar task not found'' None, db'))"

section \<open>Mind-tools counters: \<^verbatim>\<open>POST /api/mind-tools/sync\<close>\<close>

record user_row =
  u_id :: nat
  u_name :: string
  u_email :: string

record activity =
  a_tracker_type :: "string option"
  a_activity_date :: "string option"
  a_count :: "int option"

text \<open>
  A row of \<^verbatim>\<open>mind_tools_activity\<close>, with the columns the handler's \<^verbatim>\<open>INSERT\<close> and
  \<^verbatim>\<open>SELECT\<close> statements name; the repository holds no \<^verbatim>\<open>CREATE TABLE\<close> for it.
\<close>

record mind_row =
  m_id :: nat
  m_user_name :: string
  m_email :: string
  m_tracker_type :: string
  m_activity_date :: string
  m_count :: int

datatype sync_data =
  Echo activity
  \<comment> \<open>\<^verbatim>\<open>data: activity\<close> of a failed item\<close>
| Counter "nat option" string string int
  \<comment> \<open>\<^verbatim>\<open>data: { id, tracker_type, activity_date, count }\<close>; only an insert reports an id\<close>

record sync_result =
  sr_success :: bool
  sr_message :: string
  sr_data :: sync_data

datatype sync_response =
  SyncError nat string
  \<comment> \<open>status and message of an error response\<close>
| SyncOk "sync_result list"
  \<comment> \<open>status 200 with \<^verbatim>\<open>results\<close>\<close>

definition validTrackers :: "string list" where
  \<comment> \<open>declared in the handler of \<^verbatim>\<open>POST /api/mind-tools/activity\<close>, which rejects any other
      \<^verbatim>\<open>tracker_type\<close> with status 400; the sync handler does not use it\<close>
  "validTrackers = [''thought_shredder'', ''make_me_smile'', ''bubble_wrap_popper'', ''break_things'']"

definition count_or_1 :: "int option \<Rightarrow> int" where
  \<comment> \<open>\<^verbatim>\<open>count || 1\<close>\<close>
  "count_or_1 count = (case count of None \<Rightarrow> 1 | Some c \<Rightarrow> if c = 0 then 1 else c)"

definition select_activity :: "string \<Rightarrow> string \<Rightarrow> string \<Rightarrow> mind_row table \<Rightarrow> mind_row list" where
  \<comment> \<open>\<^verbatim>\<open>SELECT id, count FROM mind_tools_activity WHERE email = ? AND tracker_type = ?
      AND activity_date = ?\<close>\<close>
  "select_activity email tracker_type formattedDate db =
     filter (\<lambda>r. m_email r = email \<and> m_tracker_type r = tracker_type
                  \<and> m_activity_date r = formattedDate) (rows db)"

definition sync_activity ::
  "user_row \<Rightarrow> string \<Rightarrow> string \<Rightarrow> int option \<Rightarrow> mind_row table
     \<Rightarrow> sync_result \<times> mind_row table" where
  \<comment> \<open>the body of the inner \<^verbatim>\<open>try\<close> for one activity\<close>
  "sync_activity user tracker_type formattedDate count db =
     (let existingRecord = select_activity (u_email user) tracker_type formattedDate db
      in case existingRecord of
           r # _ \<Rightarrow>
             if m_count r < count_or_1 count
             then (\<lparr>sr_success = True, sr_message = ''Activity updated'',
                    sr_data = Counter None tracker_type formattedDate (count_or_1 count)\<rparr>,
                   db\<lparr>rows := map (\<lambda>x. if m_id x = m_id r
                                         then x\<lparr>m_count := count_or_1 count\<rparr> else x)
                                   (rows db)\<rparr>)
             else (\<lparr>sr_success = True,
                    sr_message = ''No update needed (server has higher count)'',
                    sr_data = Counter None tracker_type formattedDate (m_count r)\<rparr>, db)
         | [] \<Rightarrow>
             (\<lparr>sr_success = True, sr_message = ''Activity recorded'',
               sr_data = Counter (Some (next_id db)) tracker_type formattedDate
                           (count_or_1 count)\<rparr>,
              db\<lparr>rows := rows db @
                   [\<lparr>m_id = next_id db, m_user_name = u_name user, m_email = u_email user,
                     m_tracker_type = tracker_type, m_activity_date = formattedDate,
                     m_count = count_or_1 count\<rparr>],
                 next_id := next_id db + 1\<rparr>))"

text \<open>
  The loop over \<^verbatim>\<open>activities\<close>. \<open>toISODate\<close> stands for
  \<^verbatim>\<open>new Date(activity_date).toISOString().split('T')[0]\<close>; it is \<open>None\<close> where the date
  is invalid and \<^verbatim>\<open>toISOString\<close> throws a \<^verbatim>\<open>RangeError\<close>. That statement stands before
  the inner \<^verbatim>\<open>try\<close>, so the exception leaves the loop: the result is \<open>None\<close> and the
  rows written so far stay written.
\<close>

fun sync_loop ::
  "(string \<Rightarrow> string option) \<Rightarrow> user_row \<Rightarrow> activity list \<Rightarrow> sync_result list
     \<Rightarrow> mind_row table \<Rightarrow> sync_result list option \<times> mind_row table" where
  "sync_loop toISODate user [] results db = (Some results, db)"
| "sync_loop toISODate user (activity # rest) results db =
     (if \<not> truthy (a_tracker_type activity) \<or> \<not> truthy (a_activity_date activity)
      then sync_loop toISODate user rest
             (results @ [\<lparr>sr_success = False, sr_message = ''Missing required fields'',
                           sr_data = Echo activity\<rparr>]) db
      else (case toISODate (the (a_activity_date activity)) of
              None \<Rightarrow> (None, db)
            | Some formattedDate \<Rightarrow>
                (case sync_activity user (the (a_tracker_type activity)) formattedDate
                        (a_count activity) db of
                   (r, db') \<Rightarrow> sync_loop toISODate user rest (results @ [r]) db')))"

definition mind_tools_sync ::
  "(string \<Rightarrow> nat option) \<Rightarrow> (string \<Rightarrow> string option) \<Rightarrow> user_row list
     \<Rightarrow> string option \<Rightarrow> activity list option \<Rightarrow> mind_row table
     \<Rightarrow> sync_response \<times> mind_row table" where
  \<comment> \<open>\<open>jwt_verify\<close> stands for \<^verbatim>\<open>jwt.verify(token, JWT_SECRET)\<close> and gives
      \<^verbatim>\<open>decoded.id\<close>, or \<open>None\<close> for a token that is rejected; \<open>users\<close> is the
      \<^verbatim>\<open>user\<close> table; \<open>activities\<close> is \<open>None\<close> when the body has no array there\<close>
  "mind_tools_sync jwt_verify toISODate users authHeader activities db =
     (case authHeader of
        None \<Rightarrow> (SyncError 401 ''Authentication required'', db)
      | Some h \<Rightarrow>
          if h = [] \<or> \<not> startsWith h ''Bearer ''
          then (SyncError 401 ''Authentication required'', db)
          else (case (case nth_opt (js_split h '' '') 1 of
                        None \<Rightarrow> None | Some token \<Rightarrow> jwt_verify token) of
                  None \<Rightarrow> (SyncError 401 ''Invalid token'', db)
                | Some decoded_id \<Rightarrow>
                    (case filter (\<lambda>u. u_id u = decoded_id) users of
                       [] \<Rightarrow> (SyncError 404 ''User not found'', db)
                     | user # _ \<Rightarrow>
                         (case activities of
                            None \<Rightarrow> (SyncError 400
                              (''Invalid request format. Expected '' @ quoted ''activities''
                                 @ '' array.''), db)
                          | Some acts \<Rightarrow>
                              if acts = []
                              then (SyncError 400
                                (''Invalid request format. Expected '' @ quoted ''activities''
                                   @ '' array.''), db)
                              else (case sync_loop toISODate user acts [] db of
                                      (None, db') \<Rightarrow>
                                        (SyncError 500 ''Error syncing activities'', db')
                                    | (Some results, db') \<Rightarrow> (SyncOk results, db'))))))"

fun sync_calls ::
  "(string \<Rightarrow> nat option) \<Rightarrow> (string \<Rightarrow> string option) \<Rightarrow> user_row list
     \<Rightarrow> (string option \<times> activity list option) list \<Rightarrow> mind_row table \<Rightarrow> mind_row table" where
  \<comment> \<open>one request after the other, each on the table the one before left\<close>
  "sync_calls jwt_verify toISODate users [] db = db"
| "sync_calls jwt_verify toISODate users ((authHeader, activities) # reqs) db =
     sync_calls jwt_verify toISODate users reqs
       (snd (mind_tools_sync jwt_verify toISODate users authHeader activities db))"

definition counts_never_decrease :: "mind_row table \<Rightarrow> mind_row table \<Rightarrow> bool" where
  \<comment> \<open>every row of \<open>db\<close> is still in its place in \<open>db'\<close>, the same but for a count that is
      equal or greater\<close>
  "counts_never_decrease db db' =
     (length (rows db) \<le> length (rows db') \<and>
      list_all2 (\<lambda>r r'. m_id r' = m_id r \<and> m_user_name r' = m_user_name r
                        \<and> m_email r' = m_email r \<and> m_tracker_type r' = m_tracker_type r
                        \<and> m_activity_date r' = m_activity_date r \<and> m_count r \<le> m_count r')
        (rows db) (take (length (rows db)) (rows db')))"

definition primary_key :: "mind_row table \<Rightarrow> bool" where
  \<comment> \<open>\<^verbatim>\<open>id\<close> is the \<^verbatim>\<open>AUTO_INCREMENT\<close> primary key: no two rows share an id and the next
      id is above all of them\<close>
  "primary_key db =
     (distinct (map m_id (rows db)) \<and> list_all (\<lambda>r. m_id r < next_id db) (rows db))"

section \<open>Example data\<close>

definition example_toISODate :: "string \<Rightarrow> string option" where
  \<comment> \<open>the date conversion at the two strings the examples use: \<^verbatim>\<open>'2025-01-01'\<close> is a date
      and comes back as it is, \<^verbatim>\<open>'not-a-date'\<close> is an invalid date\<close>
  "example_toISODate s = (if s = ''2025-01-01'' then Some ''2025-01-01'' else None)"

definition example_jwt_verify :: "string \<Rightarrow> nat option" where
  \<comment> \<open>one valid token, issued to the user with id 7\<close>
  "example_jwt_verify token = (if token = ''token-of-asha'' then Some 7 else None)"

definition asha :: user_row where
  "asha = \<lparr>u_id = 7, u_name = ''asha'', u_email = ''asha@example.com''\<rparr>"

definition empty_table :: "'r table" where
  "empty_table = \<lparr>rows = [], next_id = 1\<rparr>"

definition empty_task_db :: task_db where
  "empty_task_db = \<lparr>vision_board_tasks = empty_table, weekly_planner_tasks = empty_table\<rparr>"

section \<open>Verification\<close>

subsection \<open>Decimal digits and the colour-code pattern\<close>

lemma digit_char_is_digit: "d < 10 \<Longrightarrow> is_digit (digit_char d)"
proof -
  assume "d < 10"
  then have "d \<in> {0,1,2,3,4,5,6,7,8,9}" by auto
  then show ?thesis by (auto simp: is_digit_def digit_char_def)
qed

lemma digit_val_digit_char: "d < 10 \<Longrightarrow> digit_val (digit_char d) = d"
proof -
  assume "d < 10"
  then have "d \<in> {0,1,2,3,4,5,6,7,8,9}" by auto
  then show ?thesis by (auto simp: digit_val_def digit_char_def)
qed

lemma nat_str_digits: "list_all is_digit (nat_str n)"
proof (induction n rule: nat_str.induct)
  case (1 n)
  show ?case
  proof (cases "n < 10")
    case True
    then show ?thesis by (subst nat_str.simps) (simp add: digit_char_is_digit)
  next
    case False
    with 1 show ?thesis by (subst nat_str.simps) (simp add: digit_char_is_digit)
  qed
qed

lemma nat_str_nonempty: "nat_str n \<noteq> []"
  by (subst nat_str.simps) simp

lemma foldl_nat_str: "foldl (\<lambda>a c. 10 * a + digit_val c) 0 (nat_str n) = n"
proof (induction n rule: nat_str.induct)
  case (1 n)
  show ?case
  proof (cases "n < 10")
    case True
    then show ?thesis by (subst nat_str.simps) (simp add: digit_val_digit_char)
  next
    case False
    with 1 show ?thesis by (subst nat_str.simps) (simp add: digit_val_digit_char)
  qed
qed

lemma parseInt_nat_str: "parseInt (nat_str n) = int n"
  by (simp add: parseInt_def foldl_nat_str)

lemma takeWhile_all: "list_all P xs \<Longrightarrow> takeWhile P xs = xs"
  by (induction xs) auto

lemma match_here_nat_str: "match_here (''selected-color-'' @ nat_str n) = Some (nat_str n)"
  by (simp add: match_here_def startsWith_def takeWhile_all nat_str_digits nat_str_nonempty)

lemma color_type_match_here: "match_here s = Some ds \<Longrightarrow> color_type_match s = Some ds"
  by (cases s) (auto simp: match_here_def startsWith_def color_type_match.simps)

lemma color_type_match_nat_str:
  "color_type_match (''selected-color-'' @ nat_str n) = Some (nat_str n)"
  by (rule color_type_match_here) (rule match_here_nat_str)

lemma match_here_needs_s: "CHR ''s'' \<notin> set s \<Longrightarrow> match_here s = None"
  by (cases s) (auto simp: match_here_def startsWith_def)

lemma color_type_match_needs_s: "CHR ''s'' \<notin> set s \<Longrightarrow> color_type_match s = None"
  by (induction s) (auto simp: match_here_needs_s color_type_match.simps)

lemma digits_no_s: "list_all is_digit ds \<Longrightarrow> CHR ''s'' \<notin> set ds"
  by (induction ds) (auto simp: is_digit_def)

lemma color_type_match_skip:
  "match_here (c # cs) = None \<Longrightarrow> color_type_match (c # cs) = color_type_match cs"
  by (simp add: color_type_match.simps)

lemma color_type_match_negative:
  "color_type_match (''selected-color-'' @ CHR ''-'' # nat_str n) = None"
proof -
  have 1: "match_here (CHR ''s'' # ''elected-color-'' @ CHR ''-'' # nat_str n) = None"
    by (simp add: match_here_def startsWith_def is_digit_def)
  have 2: "color_type_match (''elected-color-'' @ CHR ''-'' # nat_str n) = None"
    by (rule color_type_match_needs_s) (use digits_no_s [OF nat_str_digits, of n] in simp)
  show ?thesis using color_type_match_skip [OF 1] 2 by simp
qed

lemma rewritten_type:
  "(case color_type_match (''selected-color-'' @ js_number_string i) of
      None \<Rightarrow> i | Some ds \<Rightarrow> parseInt ds) = i"
proof (cases "i < 0")
  case True
  then show ?thesis
    using color_type_match_negative [of "nat (- i)"]
    by (simp add: js_number_string_def)
next
  case False
  then show ?thesis
    using color_type_match_nat_str [of "nat i"]
    by (simp add: js_number_string_def parseInt_nat_str)
qed

subsection \<open>The two steps of the normalization\<close>

lemma normalize_color_code_prefix:
  "startsWith (ct_color_code (normalize_color_code t)) ''selected-color-''"
  by (simp add: normalize_color_code_def startsWith_def)

lemma normalize_color_code_fixed:
  "startsWith (ct_color_code t) ''selected-color-'' \<Longrightarrow> normalize_color_code t = t"
  by (auto simp: normalize_color_code_def startsWith_def)

lemma normalize_task_type_color:
  "ct_color_code (normalize_task_type t) = ct_color_code t"
  by (simp add: normalize_task_type_def Let_def split: option.splits)

lemma normalize_task_type_idem:
  "normalize_task_type (normalize_task_type t) = normalize_task_type t"
  by (simp add: normalize_task_type_def Let_def split: option.splits)

lemma color_type_match_nonempty: "color_type_match s = Some ds \<Longrightarrow> ds \<noteq> []"
  by (induction s)
    (auto simp: match_here_def Let_def color_type_match.simps split: option.splits if_splits)

lemma normalize_task_type_value:
  "startsWith (ct_color_code t) ''selected-color-'' \<Longrightarrow>
   normalize_task_type t =
     t\<lparr>ct_task_type := (case color_type_match (ct_color_code t) of
                          None \<Rightarrow> ct_task_type t | Some ds \<Rightarrow> parseInt ds)\<rparr>"
  by (auto simp: normalize_task_type_def Let_def dest: color_type_match_nonempty
      split: option.splits)

subsection \<open>Normalization is idempotent\<close>

text \<open>
  Claim C7. The normalization of a calendar row is a function of the row, and applying it
  twice gives the same row as applying it once, for every colour code and every task
  type; so a row that is already normalized is left as it is.
\<close>
theorem normalize_task_idempotent:
  "normalize_task (normalize_task t) = normalize_task t"
proof -
  let ?t1 = "normalize_color_code t"
  have "startsWith (ct_color_code (normalize_task_type ?t1)) ''selected-color-''"
    by (simp only: normalize_task_type_color normalize_color_code_prefix)
  then have "normalize_color_code (normalize_task_type ?t1) = normalize_task_type ?t1"
    by (rule normalize_color_code_fixed)
  then show ?thesis
    by (simp only: normalize_task_def normalize_task_type_idem)
qed

text \<open>A row with colour code \<^verbatim>\<open>blue\<close>, normalized twice.\<close>
theorem normalize_task_idempotent_witness:
  "normalize_task (normalize_task \<lparr>ct_id = 1, ct_user_name = ''asha'',
        ct_email = ''asha@example.com'', ct_task_date = ''2025-05-15'', ct_task_type = 2,
        ct_task_description = ''walk'', ct_color_code = ''blue'', ct_theme = ''animal''\<rparr>) =
     \<lparr>ct_id = 1, ct_user_name = ''asha'', ct_email = ''asha@example.com'',
       ct_task_date = ''2025-05-15'', ct_task_type = 2, ct_task_description = ''walk'',
       ct_color_code = ''selected-color-2'', ct_theme = ''animal''\<rparr>"
proof -
  have "normalize_task \<lparr>ct_id = 1, ct_user_name = ''asha'',
        ct_email = ''asha@example.com'', ct_task_date = ''2025-05-15'', ct_task_type = 2,
        ct_task_description = ''walk'', ct_color_code = ''blue'', ct_theme = ''animal''\<rparr> =
     \<lparr>ct_id = 1, ct_user_name = ''asha'', ct_email = ''asha@example.com'',
       ct_task_date = ''2025-05-15'', ct_task_type = 2, ct_task_description = ''walk'',
       ct_color_code = ''selected-color-2'', ct_theme = ''animal''\<rparr>"
    by code_simp
  then show ?thesis
    using normalize_task_idempotent [of "\<lparr>ct_id = 1, ct_user_name = ''asha'',
        ct_email = ''asha@example.com'', ct_task_date = ''2025-05-15'', ct_task_type = 2,
        ct_task_description = ''walk'', ct_color_code = ''blue'', ct_theme = ''animal''\<rparr>"]
    by simp
qed

lemma match_here_digits:
  "ds \<noteq> [] \<Longrightarrow> list_all is_digit ds \<Longrightarrow> match_here (''selected-color-'' @ ds) = Some ds"
  by (simp add: match_here_def startsWith_def takeWhile_all)

lemma nat_str_small: "n < 10 \<Longrightarrow> nat_str n = [digit_char n]"
  by (subst nat_str.simps) simp

subsection \<open>What the normalization does\<close>

text \<open>
  Claim C6, as the code has it. The colour code is rewritten to
  \<^verbatim>\<open>selected-color-<task_type>\<close> exactly when it does not start with \<^verbatim>\<open>selected-color-\<close>
  (what follows the prefix is not looked at), and then the task type is unchanged. The task
  type becomes the number of the first \<^verbatim>\<open>selected-color-\<close> that digits follow in the
  (possibly rewritten) colour code, and stays as it is when there is none; for a colour code
  \<^verbatim>\<open>selected-color-<N>\<close> it becomes \<open>N\<close>. No other column changes. The pair
  (\<^verbatim>\<open>selected-color-5\<close>, 2) gives task type 5, and (\<^verbatim>\<open>blue\<close>, 2) gives
  (\<^verbatim>\<open>selected-color-2\<close>, 2).
\<close>
theorem normalize_task_rule:
  "ct_color_code (normalize_task t) =
     (if startsWith (ct_color_code t) ''selected-color-'' then ct_color_code t
      else ''selected-color-'' @ js_number_string (ct_task_type t))
   \<and> ct_task_type (normalize_task t) =
     (case color_type_match (ct_color_code (normalize_task t)) of
        None \<Rightarrow> ct_task_type t | Some ds \<Rightarrow> parseInt ds)
   \<and> (\<not> startsWith (ct_color_code t) ''selected-color-'' \<longrightarrow>
        ct_task_type (normalize_task t) = ct_task_type t)
   \<and> (ds \<noteq> [] \<and> list_all is_digit ds \<and> ct_color_code t = ''selected-color-'' @ ds \<longrightarrow>
        normalize_task t = t\<lparr>ct_task_type := parseInt ds\<rparr>)
   \<and> normalize_task t =
        t\<lparr>ct_color_code := ct_color_code (normalize_task t),
          ct_task_type := ct_task_type (normalize_task t)\<rparr>
   \<and> normalize_task (t\<lparr>ct_color_code := ''selected-color-5'', ct_task_type := 2\<rparr>) =
        t\<lparr>ct_color_code := ''selected-color-5'', ct_task_type := 5\<rparr>
   \<and> normalize_task (t\<lparr>ct_color_code := ''blue'', ct_task_type := 2\<rparr>) =
        t\<lparr>ct_color_code := ''selected-color-2'', ct_task_type := 2\<rparr>"
  (is "?A \<and> ?B \<and> ?C \<and> ?D \<and> ?E \<and> ?F \<and> ?G")
proof -
  let ?t1 = "normalize_color_code t"
  have p: "startsWith (ct_color_code ?t1) ''selected-color-''"
    by (rule normalize_color_code_prefix)
  have nt: "normalize_task t =
      ?t1\<lparr>ct_task_type := (case color_type_match (ct_color_code ?t1) of
                          None \<Rightarrow> ct_task_type ?t1 | Some ds \<Rightarrow> parseInt ds)\<rparr>"
    unfolding normalize_task_def by (rule normalize_task_type_value [OF p])
  have c1: "ct_color_code ?t1 =
     (if startsWith (ct_color_code t) ''selected-color-'' then ct_color_code t
      else ''selected-color-'' @ js_number_string (ct_task_type t))"
    by (auto simp: normalize_color_code_def startsWith_def)
  have ty1: "ct_task_type ?t1 = ct_task_type t"
    by (simp add: normalize_color_code_def)
  have A: ?A by (simp add: nt c1)
  have B: ?B by (simp add: nt ty1 split: option.splits)
  have C: ?C
  proof
    assume n: "\<not> startsWith (ct_color_code t) ''selected-color-''"
    then have "ct_color_code ?t1 = ''selected-color-'' @ js_number_string (ct_task_type t)"
      by (simp add: c1)
    then show "ct_task_type (normalize_task t) = ct_task_type t"
      using rewritten_type [of "ct_task_type t"] by (simp add: nt ty1 split: option.splits)
  qed
  have D: ?D
  proof
    assume h: "ds \<noteq> [] \<and> list_all is_digit ds \<and> ct_color_code t = ''selected-color-'' @ ds"
    then have s: "startsWith (ct_color_code t) ''selected-color-''"
      by (simp add: startsWith_def)
    have m: "color_type_match (ct_color_code t) = Some ds"
      using h color_type_match_here [OF match_here_digits, of ds] by simp
    show "normalize_task t = t\<lparr>ct_task_type := parseInt ds\<rparr>"
      by (simp add: normalize_task_def normalize_color_code_fixed [OF s]
          normalize_task_type_value [OF s] m)
  qed
  have E: ?E
    by (simp add: nt normalize_color_code_def)
  have F: ?F
    by (simp add: normalize_task_def normalize_color_code_def normalize_task_type_def
        startsWith_def match_here_def is_digit_def parseInt_def digit_val_def
        color_type_match.simps)
  have G: ?G
    by (simp add: normalize_task_def normalize_color_code_def normalize_task_type_def
        startsWith_def match_here_def is_digit_def parseInt_def digit_val_def
        js_number_string_def nat_str_small digit_char_def color_type_match.simps)
  show ?thesis
    by (intro conjI) (fact A, fact B, fact C, fact D, fact E, fact F, fact G)
qed

text \<open>The rule at a row with colour code \<^verbatim>\<open>blue\<close> and at one with \<^verbatim>\<open>selected-color-7\<close>.\<close>
theorem normalize_task_rule_witness:
  "\<not> startsWith ''blue'' ''selected-color-''
   \<and> ''7'' \<noteq> [] \<and> list_all is_digit ''7''
   \<and> normalize_task \<lparr>ct_id = 1, ct_user_name = ''asha'', ct_email = ''asha@example.com'',
        ct_task_date = ''2025-05-15'', ct_task_type = 2, ct_task_description = ''walk'',
        ct_color_code = ''blue'', ct_theme = ''animal''\<rparr> =
      \<lparr>ct_id = 1, ct_user_name = ''asha'', ct_email = ''asha@example.com'',
        ct_task_date = ''2025-05-15'', ct_task_type = 2, ct_task_description = ''walk'',
        ct_color_code = ''selected-color-2'', ct_theme = ''animal''\<rparr>
   \<and> normalize_task \<lparr>ct_id = 1, ct_user_name = ''asha'', ct_email = ''asha@example.com'',
        ct_task_date = ''2025-05-15'', ct_task_type = 2, ct_task_description = ''walk'',
        ct_color_code = ''selected-color-7'', ct_theme = ''animal''\<rparr> =
      \<lparr>ct_id = 1, ct_user_name = ''asha'', ct_email = ''asha@example.com'',
        ct_task_date = ''2025-05-15'', ct_task_type = 7, ct_task_description = ''walk'',
        ct_color_code = ''selected-color-7'', ct_theme = ''animal''\<rparr>"
  using normalize_task_rule [of "\<lparr>ct_id = 1, ct_user_name = ''asha'', ct_email = ''asha@example.com'',
        ct_task_date = ''2025-05-15'', ct_task_type = 2, ct_task_description = ''walk'',
        ct_color_code = ''blue'', ct_theme = ''animal''\<rparr>" "''7''"]
    normalize_task_rule [of "\<lparr>ct_id = 1, ct_user_name = ''asha'', ct_email = ''asha@example.com'',
        ct_task_date = ''2025-05-15'', ct_task_type = 2, ct_task_description = ''walk'',
        ct_color_code = ''selected-color-7'', ct_theme = ''animal''\<rparr>" "''7''"]
  by (simp add: startsWith_def is_digit_def parseInt_def digit_val_def)

text \<open>
  Claim C6 as the specification words it fails: \<^verbatim>\<open>selected-color-blue\<close> has not the shape
  \<^verbatim>\<open>selected-color-<N>\<close>, and the code keeps it.
\<close>
theorem color_code_shape_counterexample:
  "\<not> color_code_shape ''selected-color-blue''
   \<and> ct_color_code (normalize_task \<lparr>ct_id = 1, ct_user_name = ''asha'',
        ct_email = ''asha@example.com'', ct_task_date = ''2025-05-15'', ct_task_type = 2,
        ct_task_description = ''walk'', ct_color_code = ''selected-color-blue'',
        ct_theme = ''animal''\<rparr>) = ''selected-color-blue''"
  by (simp add: color_code_shape_def normalize_task_def normalize_color_code_def
      normalize_task_type_color startsWith_def is_digit_def)

subsection \<open>Splitting strings\<close>

lemma js_split_nonempty: "js_split s sep \<noteq> []"
  by (cases s) (auto simp: js_split.simps split: list.splits)

lemma js_split_colon_free: "CHR '':'' \<notin> set n \<Longrightarrow> js_split n '':'' = [n]"
  by (induction n) (auto simp: js_split.simps startsWith_def)

lemma js_split_colon_cons:
  "CHR '':'' \<notin> set n \<Longrightarrow> js_split (n @ CHR '':'' # r) '':'' = n # js_split r '':''"
  by (induction n) (auto simp: js_split.simps startsWith_def)

lemma js_split_Bearer:
  "js_split (''Bearer '' @ rest) ''Bearer '' = [] # js_split rest ''Bearer ''"
  by (simp add: js_split.simps startsWith_def)

lemma startsWith_iff: "startsWith h p \<longleftrightarrow> (\<exists>rest. h = p @ rest)"
proof
  assume "startsWith h p"
  then have "take (length p) h = p" by (simp add: startsWith_def)
  then have "h = p @ drop (length p) h" by (metis append_take_drop_id)
  then show "\<exists>rest. h = p @ rest" ..
next
  assume "\<exists>rest. h = p @ rest"
  then show "startsWith h p" by (auto simp: startsWith_def)
qed

lemma js_split_no_sep: "\<not> sublist sep s \<Longrightarrow> js_split s sep = [s]"
proof (induction s)
  case Nil
  then show ?case by (simp add: js_split.simps)
next
  case (Cons c cs)
  from Cons.prems have 1: "\<not> sublist sep cs"
    by (auto simp: sublist_Cons_right)
  have 2: "\<not> startsWith (c # cs) sep"
  proof
    assume "startsWith (c # cs) sep"
    then obtain rest where "c # cs = [] @ sep @ rest"
      by (auto simp: startsWith_iff)
    then have "sublist sep (c # cs)"
      by (simp only: sublist_appendI)
    with Cons.prems show False by simp
  qed
  show ?case using Cons.IH [OF 1] 2 by (simp add: js_split.simps)
qed

lemma nth_opt_simps:
  "nth_opt (x # xs) 0 = Some x"
  "nth_opt (x # y # ys) 1 = Some y"
  "nth_opt [x] 1 = None"
  "nth_opt [] i = None"
  by (simp_all add: nth_opt_def)

lemma token_of_header:
  "nth_opt (js_split (''Bearer '' @ rest) ''Bearer '') 1 = Some (hd (js_split rest ''Bearer ''))"
proof -
  obtain w ws where "js_split rest ''Bearer '' = w # ws"
    using js_split_nonempty [of rest "''Bearer ''"] by (cases "js_split rest ''Bearer ''") auto
  then show ?thesis by (simp only: js_split_Bearer nth_opt_simps list.sel)
qed

lemma js_split_first_piece:
  assumes "sep \<noteq> []"
    and "\<forall>i < length t. \<not> startsWith (drop i (t @ sep @ rest)) sep"
  shows "hd (js_split (t @ sep @ rest) sep) = t"
  using assms(2)
proof (induction t)
  case Nil
  obtain c cs where c: "sep @ rest = c # cs"
    using assms(1) by (cases sep) auto
  have "startsWith (c # cs) sep"
    unfolding c [symmetric] by (simp add: startsWith_def)
  then show ?case
    using assms(1) by (simp add: c js_split.simps)
next
  case (Cons x t)
  from Cons.prems have 0: "\<not> startsWith (x # t @ sep @ rest) sep"
    by force
  have "\<forall>i < length t. \<not> startsWith (drop i (t @ sep @ rest)) sep"
  proof (intro allI impI)
    fix i assume "i < length t"
    then have "Suc i < length (x # t)" by simp
    with Cons.prems have "\<not> startsWith (drop (Suc i) ((x # t) @ sep @ rest)) sep"
      by blast
    then show "\<not> startsWith (drop i (t @ sep @ rest)) sep" by simp
  qed
  then have ih: "hd (js_split (t @ sep @ rest) sep) = t"
    by (rule Cons.IH)
  obtain w ws where w: "js_split (t @ sep @ rest) sep = w # ws"
    using js_split_nonempty [of "t @ sep @ rest" sep] by (cases "js_split (t @ sep @ rest) sep") auto
  with ih have "w = t" by simp
  with w 0 show ?case by (simp add: js_split.simps)
qed

lemma js_split_up_to_Bearer:
  "list_all (\<lambda>i. \<not> startsWith (drop i (t @ ''Bearer '' @ rest)) ''Bearer '') [0..<length t] \<Longrightarrow>
   hd (js_split (t @ ''Bearer '' @ rest) ''Bearer '') = t"
  by (rule js_split_first_piece) (simp_all add: list_all_iff)

lemma gate_core:
  assumes "startsWith h ''Bearer ''" and "nth_opt (js_split h ''Bearer '') 1 = Some tok"
  shows "authenticateUserByToken (Some h) =
     (case js_split tok '':'' of
        n # e # _ \<Rightarrow>
          if n \<noteq> [] \<and> e \<noteq> [] then Inr \<lparr>ru_user_name = n, ru_email = e\<rparr>
          else Inl (reply 401 False
            ''Invalid authentication format. Expected: Bearer username:email'' None)
      | _ \<Rightarrow> Inl (reply 401 False
            ''Invalid authentication format. Expected: Bearer username:email'' None))"
proof -
  from assms(1) have "h \<noteq> []" by (auto simp: startsWith_def)
  with assms show ?thesis
    unfolding authenticateUserByToken_def
    by (auto simp: Let_def truthy_def nth_opt_def split: list.splits)
qed

lemma gate_after_Bearer:
  "authenticateUserByToken (Some (''Bearer '' @ rest)) =
     (case js_split (hd (js_split rest ''Bearer '')) '':'' of
        n # e # _ \<Rightarrow>
          if n \<noteq> [] \<and> e \<noteq> [] then Inr \<lparr>ru_user_name = n, ru_email = e\<rparr>
          else Inl (reply 401 False
            ''Invalid authentication format. Expected: Bearer username:email'' None)
      | _ \<Rightarrow> Inl (reply 401 False
            ''Invalid authentication format. Expected: Bearer username:email'' None))"
proof (rule gate_core)
  show "startsWith (''Bearer '' @ rest) ''Bearer ''"
    by (simp add: startsWith_def)
  show "nth_opt (js_split (''Bearer '' @ rest) ''Bearer '') 1 = Some (hd (js_split rest ''Bearer ''))"
    by (rule token_of_header)
qed

lemma gate_rejects_401: "authenticateUserByToken a = Inl r \<Longrightarrow> status r = 401"
  by (auto simp: authenticateUserByToken_def reply_def Let_def split: option.splits if_splits)

lemma gate_needs_Bearer:
  "authenticateUserByToken a = Inr u \<Longrightarrow> \<exists>rest. a = Some (''Bearer '' @ rest)"
  by (cases a) (auto simp: authenticateUserByToken_def startsWith_iff split: if_splits)

lemma gate_accepts_iff:
  "authenticateUserByToken (Some h) = Inr u \<longleftrightarrow>
     startsWith h ''Bearer '' \<and>
     (case js_split (hd (js_split (drop 7 h) ''Bearer '')) '':'' of
        n # e # _ \<Rightarrow> n \<noteq> [] \<and> e \<noteq> [] \<and> u = \<lparr>ru_user_name = n, ru_email = e\<rparr>
      | _ \<Rightarrow> False)"
proof (cases "startsWith h ''Bearer ''")
  case True
  then obtain rest where r: "h = ''Bearer '' @ rest"
    by (auto simp: startsWith_iff)
  have d: "drop 7 h = rest"
    by (simp add: r)
  have "authenticateUserByToken (Some h) = authenticateUserByToken (Some (''Bearer '' @ rest))"
    by (simp only: r)
  then show ?thesis
    using True d gate_after_Bearer [of rest] by (auto split: list.splits)
next
  case False
  then show ?thesis
    by (auto simp: authenticateUserByToken_def)
qed

lemma gate_nonempty:
  "authenticateUserByToken a = Inr u \<Longrightarrow> ru_user_name u \<noteq> [] \<and> ru_email u \<noteq> []"
proof -
  assume acc: "authenticateUserByToken a = Inr u"
  then obtain h where "a = Some h"
    by (cases a) (auto simp: authenticateUserByToken_def)
  with acc show ?thesis
    by (auto simp: gate_accepts_iff split: list.splits)
qed

subsection \<open>The identity gate\<close>

text \<open>
  Claim C8, as the code has it. A missing header is rejected, and every rejection has status
  401. A header is accepted exactly when it starts with \<^verbatim>\<open>Bearer \<close> and, of the text after
  that prefix up to the next \<^verbatim>\<open>Bearer \<close> (all of it when there is none), cut at every colon,
  the first and the second piece both exist and are not empty; these two pieces are then the
  name and the email. A token without a colon gives one piece; \<^verbatim>\<open>n:e\<close> gives \<open>n\<close> and
  \<open>e\<close>; and \<^verbatim>\<open>n:e:tail\<close> gives \<open>n\<close> and \<open>e\<close> too, so that with more than one colon the
  email is the text between the first colon and the second.
\<close>
theorem gate_rule:
  "authenticateUserByToken None = Inl (reply 401 False ''Authentication required'' None)
   \<and> (authenticateUserByToken a = Inl r \<longrightarrow> status r = 401)
   \<and> (authenticateUserByToken (Some h) = Inr u \<longleftrightarrow>
        startsWith h ''Bearer '' \<and>
        (case js_split (hd (js_split (drop 7 h) ''Bearer '')) '':'' of
           n # e # _ \<Rightarrow> n \<noteq> [] \<and> e \<noteq> [] \<and> u = \<lparr>ru_user_name = n, ru_email = e\<rparr>
         | _ \<Rightarrow> False))
   \<and> (\<not> sublist ''Bearer '' token \<longrightarrow> hd (js_split token ''Bearer '') = token)
   \<and> (list_all (\<lambda>i. \<not> startsWith (drop i (token @ ''Bearer '' @ rest)) ''Bearer '')
          [0..<length token] \<longrightarrow>
        hd (js_split (token @ ''Bearer '' @ rest) ''Bearer '') = token)
   \<and> (CHR '':'' \<notin> set n \<longrightarrow> js_split n '':'' = [n])
   \<and> (CHR '':'' \<notin> set n \<and> CHR '':'' \<notin> set e \<longrightarrow>
        js_split (n @ '':'' @ e) '':'' = [n, e]
        \<and> js_split (n @ '':'' @ e @ '':'' @ tail) '':'' = n # e # js_split tail '':'')"
  (is "?N \<and> ?A \<and> ?B \<and> ?C \<and> ?F \<and> ?D \<and> ?E")
proof -
  have N: ?N by (simp add: authenticateUserByToken_def)
  have F: ?F using js_split_up_to_Bearer by blast
  have A: ?A by (auto dest: gate_rejects_401)
  have B: ?B by (rule gate_accepts_iff)
  have C: ?C by (simp add: js_split_no_sep)
  have D: ?D by (simp add: js_split_colon_free)
  have E: ?E
  proof (intro impI conjI)
    assume h: "CHR '':'' \<notin> set n \<and> CHR '':'' \<notin> set e"
    then show "js_split (n @ '':'' @ e) '':'' = [n, e]"
      using js_split_colon_cons [of n e] js_split_colon_free [of e] by simp
    from h show "js_split (n @ '':'' @ e @ '':'' @ tail) '':'' = n # e # js_split tail '':''"
      using js_split_colon_cons [of n "e @ '':'' @ tail"] js_split_colon_cons [of e tail] by simp
  qed
  show ?thesis by (intro conjI) (fact N, fact A, fact B, fact C, fact F, fact D, fact E)
qed

text \<open>The gate at \<^verbatim>\<open>Bearer asha:asha@example.com\<close> and at a request without the header.\<close>
theorem gate_rule_witness:
  "authenticateUserByToken (Some ''Bearer asha:asha@example.com'') =
     Inr \<lparr>ru_user_name = ''asha'', ru_email = ''asha@example.com''\<rparr>
   \<and> status (reply 401 False ''Authentication required'' None) = 401
   \<and> hd (js_split ''asha:asha@example.com'' ''Bearer '') = ''asha:asha@example.com''
   \<and> hd (js_split (''asha:asha@example.com'' @ ''Bearer '' @ ''x'') ''Bearer '') =
        ''asha:asha@example.com''
   \<and> js_split ''asha'' '':'' = [''asha'']
   \<and> js_split (''asha'' @ '':'' @ ''asha@example.com'' @ '':'' @ ''x'') '':'' =
        ''asha'' # ''asha@example.com'' # js_split ''x'' '':''"
proof -
  have e1: "startsWith ''Bearer asha:asha@example.com'' ''Bearer ''"
    by code_simp
  have e2: "js_split (hd (js_split (drop 7 ''Bearer asha:asha@example.com'') ''Bearer '')) '':'' =
        [''asha'', ''asha@example.com'']"
    by code_simp
  have e3: "\<not> sublist ''Bearer '' ''asha:asha@example.com''"
    by code_simp
  have e4: "CHR '':'' \<notin> set ''asha'' \<and> CHR '':'' \<notin> set ''asha@example.com''"
    by simp
  have e5: "authenticateUserByToken None = Inl (reply 401 False ''Authentication required'' None)"
    by code_simp
  have e6: "list_all (\<lambda>i. \<not> startsWith (drop i (''asha:asha@example.com'' @ ''Bearer '' @ ''x''))
                         ''Bearer '') [0..<length ''asha:asha@example.com'']"
    by code_simp
  show ?thesis
    using gate_rule [of None "reply 401 False ''Authentication required'' None"
        "''Bearer asha:asha@example.com''"
        "\<lparr>ru_user_name = ''asha'', ru_email = ''asha@example.com''\<rparr>"
        "''asha:asha@example.com''" "''x''" "''asha''" "''asha@example.com''" "''x''"]
      e1 e2 e3 e4 e5 e6
    by simp
qed

text \<open>
  Claim C8 as the specification words it fails: with two colons in the token the email is not
  everything after the first colon.
\<close>
theorem gate_email_counterexample:
  "authenticateUserByToken (Some ''Bearer asha:asha@example.com:x'') =
     Inr \<lparr>ru_user_name = ''asha'', ru_email = ''asha@example.com''\<rparr>
   \<and> ''asha@example.com'' \<noteq> ''asha@example.com:x''"
  by code_simp

lemma calendar_save_mismatch:
  "cb_user_name cb \<noteq> Some (ru_user_name u) \<or> cb_email cb \<noteq> Some (ru_email u) \<Longrightarrow>
   calendar_save u cb cdb =
     (reply 403 False ''Authorization mismatch: Cannot save calendar tasks for another user''
        None, cdb)"
  by (simp add: calendar_save_def)

lemma tasks_save_mismatch:
  "b_user_name b \<noteq> Some (ru_user_name u) \<or> b_email b \<noteq> Some (ru_email u) \<Longrightarrow>
   tasks_save u b tdb =
     (if truthy (b_user_name b) \<and> truthy (b_email b) \<and> truthy (b_card_id b)
         \<and> truthy (b_tasks b) \<and> truthy (b_theme b) \<and> truthy (b_table b)
      then reply 403 False ''Authorization mismatch: Cannot save tasks for another user'' None
      else reply 400 False
        ''Missing required fields: user_name, email, card_id, tasks, theme, or table'' None,
      tdb)"
  by (auto simp: tasks_save_def Let_def truthy_def split: option.splits)

subsection \<open>The ownership check of the save routes\<close>

text \<open>
  Claim C3, as the code has it. Under an accepted credential, a save request whose body
  names another user (or no user) is rejected and the tables stay as they are. The calendar
  route rejects it with status 403 whatever else the body holds. The task route rejects it
  with status 403 when the six required fields are all present and not empty, and with
  status 400 otherwise: there the test for missing fields comes first.
\<close>
theorem ownership_check:
  assumes "authenticateUserByToken a = Inr u"
  shows "(cb_user_name cb \<noteq> Some (ru_user_name u) \<or> cb_email cb \<noteq> Some (ru_email u) \<longrightarrow>
          post_calendar_save a cb cdb =
            (reply 403 False
               ''Authorization mismatch: Cannot save calendar tasks for another user'' None, cdb))
       \<and> (b_user_name b \<noteq> Some (ru_user_name u) \<or> b_email b \<noteq> Some (ru_email u) \<longrightarrow>
          post_tasks_save a b tdb =
            (if truthy (b_user_name b) \<and> truthy (b_email b) \<and> truthy (b_card_id b)
                \<and> truthy (b_tasks b) \<and> truthy (b_theme b) \<and> truthy (b_table b)
             then reply 403 False
               ''Authorization mismatch: Cannot save tasks for another user'' None
             else reply 400 False
               ''Missing required fields: user_name, email, card_id, tasks, theme, or table''
               None,
             tdb))"
  using assms
  by (simp add: post_calendar_save_def post_tasks_save_def calendar_save_mismatch
      tasks_save_mismatch)

text \<open>Both routes at a body that names ravi under the credential of asha.\<close>
theorem ownership_check_witness:
  "post_calendar_save (Some ''Bearer asha:asha@example.com'')
     \<lparr>cb_user_name = Some ''ravi'', cb_email = Some ''ravi@example.com'',
      cb_task_date = Some ''2025-05-15'', cb_task_type = Some 1,
      cb_task_description = Some ''walk'', cb_color_code = Some ''selected-color-1'',
      cb_theme = Some ''animal'', cb_id = None, cb_delete = False\<rparr>
     \<lparr>rows = [], next_id = 1\<rparr> =
     (reply 403 False
        ''Authorization mismatch: Cannot save calendar tasks for another user'' None,
      \<lparr>rows = [], next_id = 1\<rparr>)
   \<and> post_tasks_save (Some ''Bearer asha:asha@example.com'')
     \<lparr>b_user_name = Some ''ravi'', b_email = Some ''ravi@example.com'',
      b_card_id = Some ''card-1'', b_tasks = Some ''[]'', b_theme = Some ''animal'',
      b_table = Some ''vision_board_tasks''\<rparr> empty_task_db =
     (reply 403 False ''Authorization mismatch: Cannot save tasks for another user'' None,
      empty_task_db)"
proof -
  have g: "authenticateUserByToken (Some ''Bearer asha:asha@example.com'') =
      Inr \<lparr>ru_user_name = ''asha'', ru_email = ''asha@example.com''\<rparr>"
    by code_simp
  show ?thesis
    using ownership_check [OF g,
        of "\<lparr>cb_user_name = Some ''ravi'', cb_email = Some ''ravi@example.com'',
      cb_task_date = Some ''2025-05-15'', cb_task_type = Some 1,
      cb_task_description = Some ''walk'', cb_color_code = Some ''selected-color-1'',
      cb_theme = Some ''animal'', cb_id = None, cb_delete = False\<rparr>"
        "\<lparr>rows = [], next_id = 1\<rparr>"
        "\<lparr>b_user_name = Some ''ravi'', b_email = Some ''ravi@example.com'',
      b_card_id = Some ''card-1'', b_tasks = Some ''[]'', b_theme = Some ''animal'',
      b_table = Some ''vision_board_tasks''\<rparr>" empty_task_db]
    by (simp add: truthy_def)
qed

text \<open>
  Claim C3 as the specification words it fails on the task route: the same body without
  \<^verbatim>\<open>card_id\<close> is answered with status 400, not 403.
\<close>
theorem ownership_check_counterexample:
  "post_tasks_save (Some ''Bearer asha:asha@example.com'')
     \<lparr>b_user_name = Some ''ravi'', b_email = Some ''ravi@example.com'',
      b_card_id = None, b_tasks = Some ''[]'', b_theme = Some ''animal'',
      b_table = Some ''vision_board_tasks''\<rparr> empty_task_db =
     (reply 400 False
        ''Missing required fields: user_name, email, card_id, tasks, theme, or table'' None,
      empty_task_db)"
  by code_simp

lemma get_put_table:
  "tbl = ''vision_board_tasks'' \<or> tbl = ''weekly_planner_tasks'' \<Longrightarrow>
   get_table tbl (put_table tbl t db) = t"
  by (auto simp: get_table_def put_table_def)

subsection \<open>Saving the same task list twice\<close>

text \<open>
  Claim C5. Under an accepted credential, with a body that names the user of the
  credential, holds a card id, a task list and a theme that are not empty and one of the two
  allowed tables, and with no row stored for that user, card and theme: the first save
  answers 201, the second save (on the table the first one left) answers 200, and both carry
  the same row id, the one the insert received.
\<close>
theorem tasks_save_twice:
  assumes gate: "authenticateUserByToken a = Inr u"
    and own: "b_user_name b = Some (ru_user_name u)" "b_email b = Some (ru_email u)"
    and fields: "truthy (b_card_id b)" "truthy (b_tasks b)" "truthy (b_theme b)"
    and tbl: "b_table b = Some tbl" "tbl = ''vision_board_tasks'' \<or> tbl = ''weekly_planner_tasks''"
    and fresh: "filter (\<lambda>r. tr_user_name r = ru_user_name u \<and> tr_email r = ru_email u
                          \<and> tr_card_id r = the (b_card_id b) \<and> tr_theme r = the (b_theme b))
                  (rows (get_table tbl db)) = []"
  shows "status (fst (post_tasks_save a b db)) = 201
       \<and> status (fst (post_tasks_save a b (snd (post_tasks_save a b db)))) = 200
       \<and> res_id (fst (post_tasks_save a b db)) = Some (next_id (get_table tbl db))
       \<and> res_id (fst (post_tasks_save a b (snd (post_tasks_save a b db)))) =
           res_id (fst (post_tasks_save a b db))"
proof -
  from gate have ne: "ru_user_name u \<noteq> []" "ru_email u \<noteq> []"
    using gate_nonempty by blast+
  let ?t = "get_table tbl db"
  let ?row = "\<lparr>tr_id = next_id ?t, tr_user_name = ru_user_name u, tr_email = ru_email u,
                 tr_card_id = the (b_card_id b), tr_tasks = the (b_tasks b),
                 tr_theme = the (b_theme b)\<rparr>"
  let ?t1 = "?t\<lparr>rows := rows ?t @ [?row], next_id := next_id ?t + 1\<rparr>"
  let ?db1 = "put_table tbl ?t1 db"
  have ok: "truthy (b_user_name b)" "truthy (b_email b)" "truthy (b_table b)"
    using own tbl ne by (auto simp: truthy_def)
  have first: "post_tasks_save a b db =
      (reply 201 True ''Task saved successfully'' (Some (next_id ?t)), ?db1)"
    using tbl(2) gate own fields tbl(1) fresh ok
    by (elim disjE) (simp_all add: post_tasks_save_def tasks_save_def Let_def)
  define db1 where "db1 = ?db1"
  have f1: "fst (post_tasks_save a b db) =
      reply 201 True ''Task saved successfully'' (Some (next_id ?t))"
    and s1: "snd (post_tasks_save a b db) = db1"
    by (simp_all only: first db1_def fst_conv snd_conv)
  have t1: "get_table tbl db1 = ?t1"
    unfolding db1_def using tbl(2) by (rule get_put_table)
  have found: "filter (\<lambda>r. tr_user_name r = ru_user_name u \<and> tr_email r = ru_email u
                          \<and> tr_card_id r = the (b_card_id b) \<and> tr_theme r = the (b_theme b))
                  (rows (get_table tbl db1)) = [?row]"
    using fresh by (simp add: t1)
  have second: "fst (post_tasks_save a b db1) =
      reply 200 True ''Task updated successfully'' (Some (next_id ?t))"
    using tbl(2) gate own fields tbl(1) ok found
    by (elim disjE) (simp_all add: post_tasks_save_def tasks_save_def Let_def)
  show ?thesis
    by (simp add: f1 s1 second reply_def)
qed

text \<open>Two saves of \<^verbatim>\<open>card-1\<close> into the empty database.\<close>
theorem tasks_save_twice_witness:
  "authenticateUserByToken (Some ''Bearer asha:asha@example.com'') =
     Inr \<lparr>ru_user_name = ''asha'', ru_email = ''asha@example.com''\<rparr>
   \<and> status (fst (post_tasks_save (Some ''Bearer asha:asha@example.com'')
        \<lparr>b_user_name = Some ''asha'', b_email = Some ''asha@example.com'',
         b_card_id = Some ''card-1'', b_tasks = Some ''[]'', b_theme = Some ''animal'',
         b_table = Some ''vision_board_tasks''\<rparr> empty_task_db)) = 201
   \<and> status (fst (post_tasks_save (Some ''Bearer asha:asha@example.com'')
        \<lparr>b_user_name = Some ''asha'', b_email = Some ''asha@example.com'',
         b_card_id = Some ''card-1'', b_tasks = Some ''[]'', b_theme = Some ''animal'',
         b_table = Some ''vision_board_tasks''\<rparr>
        (snd (post_tasks_save (Some ''Bearer asha:asha@example.com'')
           \<lparr>b_user_name = Some ''asha'', b_email = Some ''asha@example.com'',
            b_card_id = Some ''card-1'', b_tasks = Some ''[]'', b_theme = Some ''animal'',
            b_table = Some ''vision_board_tasks''\<rparr> empty_task_db)))) = 200
   \<and> res_id (fst (post_tasks_save (Some ''Bearer asha:asha@example.com'')
        \<lparr>b_user_name = Some ''asha'', b_email = Some ''asha@example.com'',
         b_card_id = Some ''card-1'', b_tasks = Some ''[]'', b_theme = Some ''animal'',
         b_table = Some ''vision_board_tasks''\<rparr>
        (snd (post_tasks_save (Some ''Bearer asha:asha@example.com'')
           \<lparr>b_user_name = Some ''asha'', b_email = Some ''asha@example.com'',
            b_card_id = Some ''card-1'', b_tasks = Some ''[]'', b_theme = Some ''animal'',
            b_table = Some ''vision_board_tasks''\<rparr> empty_task_db)))) = Some 1"
proof -
  let ?b = "\<lparr>b_user_name = Some ''asha'', b_email = Some ''asha@example.com'',
         b_card_id = Some ''card-1'', b_tasks = Some ''[]'', b_theme = Some ''animal'',
         b_table = Some ''vision_board_tasks''\<rparr>"
  let ?u = "\<lparr>ru_user_name = ''asha'', ru_email = ''asha@example.com''\<rparr>"
  have g: "authenticateUserByToken (Some ''Bearer asha:asha@example.com'') = Inr ?u"
    by code_simp
  have o1: "b_user_name ?b = Some (ru_user_name ?u)" and o2: "b_email ?b = Some (ru_email ?u)"
    by simp_all
  have f1: "truthy (b_card_id ?b)" and f2: "truthy (b_tasks ?b)" and f3: "truthy (b_theme ?b)"
    by (simp_all add: truthy_def)
  have t1: "b_table ?b = Some ''vision_board_tasks''" by simp
  have t2: "''vision_board_tasks'' = ''vision_board_tasks'' \<or>
      ''vision_board_tasks'' = ''weekly_planner_tasks''" by simp
  have fr: "filter (\<lambda>r. tr_user_name r = ru_user_name ?u \<and> tr_email r = ru_email ?u
                          \<and> tr_card_id r = the (b_card_id ?b) \<and> tr_theme r = the (b_theme ?b))
                  (rows (get_table ''vision_board_tasks'' empty_task_db)) = []"
    by (simp add: get_table_def empty_task_db_def empty_table_def)
  have n: "next_id (get_table ''vision_board_tasks'' empty_task_db) = 1"
    by (simp add: get_table_def empty_task_db_def empty_table_def)
  show ?thesis
    using tasks_save_twice [OF g o1 o2 f1 f2 f3 t1 t2 fr] g n by simp
qed

subsection \<open>The compatibility delete\<close>

text \<open>
  Claim C9. The answer and the table after do not depend on the authorization header. The
  rows left are those whose id differs from the path parameter, whoever owns them. The
  status is 200 exactly when some row had that id and 404 exactly when none had; with 404
  the table is unchanged. Any row of any user is removed by a request that names its id.
\<close>
theorem delete_calendar_task_rule:
  "delete_calendar_task (req\<lparr>headers_authorization := h\<rparr>) db = delete_calendar_task req db
   \<and> rows (snd (delete_calendar_task req db)) =
        filter (\<lambda>r. ct_id r \<noteq> params_id req) (rows db)
   \<and> next_id (snd (delete_calendar_task req db)) = next_id db
   \<and> (status (fst (delete_calendar_task req db)) = 200 \<longleftrightarrow>
        (\<exists>r \<in> set (rows db). ct_id r = params_id req))
   \<and> (status (fst (delete_calendar_task req db)) = 404 \<longleftrightarrow>
        \<not> (\<exists>r \<in> set (rows db). ct_id r = params_id req))
   \<and> (status (fst (delete_calendar_task req db)) = 404 \<longrightarrow>
        snd (delete_calendar_task req db) = db)
   \<and> (\<forall>r \<in> set (rows db). ct_id r = params_id req \<longrightarrow>
        success (fst (delete_calendar_task req db)) \<and>
        r \<notin> set (rows (snd (delete_calendar_task req db))))"
  (is "?A \<and> ?B \<and> ?C \<and> ?D \<and> ?E \<and> ?F \<and> ?G")
proof -
  have len: "(0 < length (filter (\<lambda>r. ct_id r = params_id req) (rows db))) \<longleftrightarrow>
      (\<exists>r \<in> set (rows db). ct_id r = params_id req)"
    by (simp add: filter_empty_conv)
  have A: ?A by (simp add: delete_calendar_task_def)
  have B: ?B by (simp add: delete_calendar_task_def Let_def)
  have C: ?C by (simp add: delete_calendar_task_def Let_def)
  have D: ?D by (simp add: delete_calendar_task_def Let_def reply_def filter_empty_conv)
  have E: ?E by (simp add: delete_calendar_task_def Let_def reply_def filter_empty_conv)
  have F: ?F
  proof
    assume "status (fst (delete_calendar_task req db)) = 404"
    with E have "\<forall>r \<in> set (rows db). ct_id r \<noteq> params_id req" by blast
    then have "filter (\<lambda>r. ct_id r \<noteq> params_id req) (rows db) = rows db"
      by (simp add: filter_id_conv)
    then show "snd (delete_calendar_task req db) = db"
      by (simp add: delete_calendar_task_def Let_def)
  qed
  have G: ?G
    by (auto simp: delete_calendar_task_def Let_def reply_def filter_empty_conv)
  show ?thesis by (intro conjI) (fact A, fact B, fact C, fact D, fact E, fact F, fact G)
qed

text \<open>A request without credentials removes the row of ravi; an unknown id is answered 404.\<close>
theorem delete_calendar_task_rule_witness:
  "delete_calendar_task \<lparr>headers_authorization = None, params_id = 4\<rparr>
     \<lparr>rows = [\<lparr>ct_id = 3, ct_user_name = ''asha'', ct_email = ''asha@example.com'',
               ct_task_date = ''2025-05-15'', ct_task_type = 1, ct_task_description = ''walk'',
               ct_color_code = ''selected-color-1'', ct_theme = ''animal''\<rparr>,
              \<lparr>ct_id = 4, ct_user_name = ''ravi'', ct_email = ''ravi@example.com'',
               ct_task_date = ''2025-05-16'', ct_task_type = 2, ct_task_description = ''read'',
               ct_color_code = ''selected-color-2'', ct_theme = ''animal''\<rparr>],
      next_id = 5\<rparr> =
   (reply 200 True ''Calendar task deleted successfully'' None,
    \<lparr>rows = [\<lparr>ct_id = 3, ct_user_name = ''asha'', ct_email = ''asha@example.com'',
               ct_task_date = ''2025-05-15'', ct_task_type = 1, ct_task_description = ''walk'',
               ct_color_code = ''selected-color-1'', ct_theme = ''animal''\<rparr>],
      next_id = 5\<rparr>)
   \<and> status (fst (delete_calendar_task \<lparr>headers_authorization = None, params_id = 9\<rparr>
        \<lparr>rows = [\<lparr>ct_id = 3, ct_user_name = ''asha'', ct_email = ''asha@example.com'',
               ct_task_date = ''2025-05-15'', ct_task_type = 1, ct_task_description = ''walk'',
               ct_color_code = ''selected-color-1'', ct_theme = ''animal''\<rparr>],
         next_id = 5\<rparr>)) = 404
   \<and> snd (delete_calendar_task \<lparr>headers_authorization = None, params_id = 9\<rparr>
        \<lparr>rows = [\<lparr>ct_id = 3, ct_user_name = ''asha'', ct_email = ''asha@example.com'',
               ct_task_date = ''2025-05-15'', ct_task_type = 1, ct_task_description = ''walk'',
               ct_color_code = ''selected-color-1'', ct_theme = ''animal''\<rparr>],
         next_id = 5\<rparr>) =
        \<lparr>rows = [\<lparr>ct_id = 3, ct_user_name = ''asha'', ct_email = ''asha@example.com'',
               ct_task_date = ''2025-05-15'', ct_task_type = 1, ct_task_description = ''walk'',
               ct_color_code = ''selected-color-1'', ct_theme = ''animal''\<rparr>],
         next_id = 5\<rparr>"
proof -
  let ?r3 = "\<lparr>ct_id = 3, ct_user_name = ''asha'', ct_email = ''asha@example.com'',
               ct_task_date = ''2025-05-15'', ct_task_type = 1, ct_task_description = ''walk'',
               ct_color_code = ''selected-color-1'', ct_theme = ''animal''\<rparr>"
  let ?r4 = "\<lparr>ct_id = 4, ct_user_name = ''ravi'', ct_email = ''ravi@example.com'',
               ct_task_date = ''2025-05-16'', ct_task_type = 2, ct_task_description = ''read'',
               ct_color_code = ''selected-color-2'', ct_theme = ''animal''\<rparr>"
  have a: "delete_calendar_task \<lparr>headers_authorization = None, params_id = 4\<rparr>
      \<lparr>rows = [?r3, ?r4], next_id = 5\<rparr> =
      (reply 200 True ''Calendar task deleted successfully'' None,
       \<lparr>rows = [?r3], next_id = 5\<rparr>)"
    by (simp add: delete_calendar_task_def)
  have b: "\<not> (\<exists>r \<in> set [?r3]. ct_id r = params_id \<lparr>headers_authorization = None, params_id = 9\<rparr>)"
    by simp
  show ?thesis
    using delete_calendar_task_rule [where req = "\<lparr>headers_authorization = None, params_id = 9\<rparr>"
        and h = "Some ''Bearer ravi:ravi@example.com''" and db = "\<lparr>rows = [?r3], next_id = 5\<rparr>"]
      delete_calendar_task_rule [where req = "\<lparr>headers_authorization = None, params_id = 4\<rparr>"
        and h = "Some ''Bearer asha:asha@example.com''"
        and db = "\<lparr>rows = [?r3, ?r4], next_id = 5\<rparr>"] a b
    by simp
qed

subsection \<open>The merge of one activity\<close>

lemma count_or_1_nonzero: "count_or_1 c \<noteq> 0"
  by (auto simp: count_or_1_def split: option.splits)

lemma sync_activity_created:
  "select_activity (u_email user) tt fd db = [] \<Longrightarrow>
   sync_activity user tt fd c db =
     (\<lparr>sr_success = True, sr_message = ''Activity recorded'',
       sr_data = Counter (Some (next_id db)) tt fd (count_or_1 c)\<rparr>,
      db\<lparr>rows := rows db @
           [\<lparr>m_id = next_id db, m_user_name = u_name user, m_email = u_email user,
             m_tracker_type = tt, m_activity_date = fd, m_count = count_or_1 c\<rparr>],
         next_id := next_id db + 1\<rparr>)"
  by (simp add: sync_activity_def)

lemma sync_activity_updated:
  "select_activity (u_email user) tt fd db = r # rs \<Longrightarrow> m_count r < count_or_1 c \<Longrightarrow>
   sync_activity user tt fd c db =
     (\<lparr>sr_success = True, sr_message = ''Activity updated'',
       sr_data = Counter None tt fd (count_or_1 c)\<rparr>,
      db\<lparr>rows := map (\<lambda>x. if m_id x = m_id r then x\<lparr>m_count := count_or_1 c\<rparr> else x)
                      (rows db)\<rparr>)"
  by (simp add: sync_activity_def)

lemma sync_activity_unchanged:
  "select_activity (u_email user) tt fd db = r # rs \<Longrightarrow> count_or_1 c \<le> m_count r \<Longrightarrow>
   sync_activity user tt fd c db =
     (\<lparr>sr_success = True, sr_message = ''No update needed (server has higher count)'',
       sr_data = Counter None tt fd (m_count r)\<rparr>, db)"
  by (simp add: sync_activity_def)

lemma select_after_insert:
  "select_activity e tt fd db = [] \<Longrightarrow>
   select_activity e tt fd
     (db\<lparr>rows := rows db @
           [\<lparr>m_id = i, m_user_name = n, m_email = e,
             m_tracker_type = tt, m_activity_date = fd, m_count = k\<rparr>],
         next_id := j\<rparr>) =
     [\<lparr>m_id = i, m_user_name = n, m_email = e,
       m_tracker_type = tt, m_activity_date = fd, m_count = k\<rparr>]"
  by (simp add: select_activity_def)

lemma select_after_update:
  "select_activity e tt fd db = r # rs \<Longrightarrow>
   select_activity e tt fd
     (db\<lparr>rows := map (\<lambda>x. if m_id x = m_id r then x\<lparr>m_count := k\<rparr> else x) (rows db)\<rparr>) =
     map (\<lambda>x. if m_id x = m_id r then x\<lparr>m_count := k\<rparr> else x) (r # rs)"
proof -
  let ?f = "\<lambda>x. if m_id x = m_id r then x\<lparr>m_count := k\<rparr> else x"
  let ?P = "\<lambda>r. m_email r = e \<and> m_tracker_type r = tt \<and> m_activity_date r = fd"
  assume a: "select_activity e tt fd db = r # rs"
  have "filter ?P (map ?f xs) = map ?f (filter ?P xs)" for xs
    by (induction xs) auto
  then have "filter ?P (map ?f (rows db)) = map ?f (filter ?P (rows db))" .
  with a show ?thesis by (simp add: select_activity_def)
qed

lemma sync_loop_item:
  "tt \<noteq> [] \<Longrightarrow> d \<noteq> [] \<Longrightarrow> toISODate d = Some fd \<Longrightarrow>
   sync_loop toISODate user
     (\<lparr>a_tracker_type = Some tt, a_activity_date = Some d, a_count = c\<rparr> # rest) results db =
   sync_loop toISODate user rest (results @ [fst (sync_activity user tt fd c db)])
     (snd (sync_activity user tt fd c db))"
  by (simp add: truthy_def split: prod.splits)

subsection \<open>The merge rule of the sync route\<close>

text \<open>
  Claim C1, as the code has it. For an item with a tracker type and a date that are not
  empty and a date that converts, the loop appends the one result of the merge to the results
  and goes on with the table the merge left. The merge works with the client's count, or
  with 1 when the count is omitted or is 0. With no row for (email, tracker type, date) it
  appends a row with that count and answers \<^verbatim>\<open>Activity recorded\<close> with it. With a row whose
  count is below it, it sets the count and answers \<^verbatim>\<open>Activity updated\<close>. With a row whose
  count is equal or above, it writes nothing and answers with the stored count. Counts 3, 2
  and 5 in three successive calls, with no row at first, are answered recorded 3, no update 3,
  updated 5.
\<close>
theorem reconcile_rule:
  assumes "tt \<noteq> []" and "d \<noteq> []" and "toISODate d = Some fd"
  shows "sync_loop toISODate user
           (\<lparr>a_tracker_type = Some tt, a_activity_date = Some d, a_count = c\<rparr> # rest) results db =
         sync_loop toISODate user rest (results @ [fst (sync_activity user tt fd c db)])
           (snd (sync_activity user tt fd c db))
       \<and> count_or_1 None = 1 \<and> count_or_1 (Some k) = (if k = 0 then 1 else k)
       \<and> (select_activity (u_email user) tt fd db = [] \<longrightarrow>
            fst (sync_activity user tt fd c db) =
              \<lparr>sr_success = True, sr_message = ''Activity recorded'',
               sr_data = Counter (Some (next_id db)) tt fd (count_or_1 c)\<rparr>
            \<and> rows (snd (sync_activity user tt fd c db)) = rows db @
                [\<lparr>m_id = next_id db, m_user_name = u_name user, m_email = u_email user,
                  m_tracker_type = tt, m_activity_date = fd, m_count = count_or_1 c\<rparr>])
       \<and> (select_activity (u_email user) tt fd db = r # rs \<and> m_count r < count_or_1 c \<longrightarrow>
            fst (sync_activity user tt fd c db) =
              \<lparr>sr_success = True, sr_message = ''Activity updated'',
               sr_data = Counter None tt fd (count_or_1 c)\<rparr>
            \<and> rows (snd (sync_activity user tt fd c db)) =
                map (\<lambda>x. if m_id x = m_id r then x\<lparr>m_count := count_or_1 c\<rparr> else x) (rows db)
            \<and> hd (select_activity (u_email user) tt fd (snd (sync_activity user tt fd c db))) =
                r\<lparr>m_count := count_or_1 c\<rparr>)
       \<and> (select_activity (u_email user) tt fd db = r # rs \<and> count_or_1 c \<le> m_count r \<longrightarrow>
            sync_activity user tt fd c db =
              (\<lparr>sr_success = True,
                sr_message = ''No update needed (server has higher count)'',
                sr_data = Counter None tt fd (m_count r)\<rparr>, db))
       \<and> (select_activity (u_email user) tt fd db = [] \<longrightarrow>
            fst (sync_loop toISODate user
                   [\<lparr>a_tracker_type = Some tt, a_activity_date = Some d, a_count = Some 3\<rparr>] [] db) =
              Some [\<lparr>sr_success = True, sr_message = ''Activity recorded'',
                     sr_data = Counter (Some (next_id db)) tt fd 3\<rparr>]
            \<and> fst (sync_loop toISODate user
                   [\<lparr>a_tracker_type = Some tt, a_activity_date = Some d, a_count = Some 2\<rparr>] []
                   (snd (sync_activity user tt fd (Some 3) db))) =
              Some [\<lparr>sr_success = True,
                     sr_message = ''No update needed (server has higher count)'',
                     sr_data = Counter None tt fd 3\<rparr>]
            \<and> fst (sync_loop toISODate user
                   [\<lparr>a_tracker_type = Some tt, a_activity_date = Some d, a_count = Some 5\<rparr>] []
                   (snd (sync_activity user tt fd (Some 2)
                      (snd (sync_activity user tt fd (Some 3) db))))) =
              Some [\<lparr>sr_success = True, sr_message = ''Activity updated'',
                     sr_data = Counter None tt fd 5\<rparr>])"
  (is "?L \<and> ?N \<and> ?K \<and> ?C \<and> ?U \<and> ?S \<and> ?X")
proof -
  have L: ?L using assms by (simp add: truthy_def split: prod.splits)
  have N: ?N by (simp add: count_or_1_def)
  have K: ?K by (simp add: count_or_1_def)
  have C: ?C by (simp add: sync_activity_created)
  have U: ?U
  proof (intro impI, elim conjE)
    assume s: "select_activity (u_email user) tt fd db = r # rs"
      and lt: "m_count r < count_or_1 c"
    show "fst (sync_activity user tt fd c db) =
              \<lparr>sr_success = True, sr_message = ''Activity updated'',
               sr_data = Counter None tt fd (count_or_1 c)\<rparr>
            \<and> rows (snd (sync_activity user tt fd c db)) =
                map (\<lambda>x. if m_id x = m_id r then x\<lparr>m_count := count_or_1 c\<rparr> else x) (rows db)
            \<and> hd (select_activity (u_email user) tt fd (snd (sync_activity user tt fd c db))) =
                r\<lparr>m_count := count_or_1 c\<rparr>"
      by (simp add: sync_activity_updated [OF s lt] select_after_update [OF s])
  qed
  have S: ?S by (auto simp: sync_activity_unchanged)
  have X: ?X
  proof
    assume e: "select_activity (u_email user) tt fd db = []"
    let ?row = "\<lparr>m_id = next_id db, m_user_name = u_name user, m_email = u_email user,
             m_tracker_type = tt, m_activity_date = fd, m_count = 3\<rparr>"
    let ?db1 = "db\<lparr>rows := rows db @ [?row], next_id := next_id db + 1\<rparr>"
    have l1: "sync_loop toISODate user
        [\<lparr>a_tracker_type = Some tt, a_activity_date = Some d, a_count = c'\<rparr>] [] db' =
        (Some [fst (sync_activity user tt fd c' db')], snd (sync_activity user tt fd c' db'))"
      for c' db'
      using assms by (simp add: truthy_def split: prod.splits)
    have c3: "count_or_1 (Some 3) = 3" and c2: "count_or_1 (Some 2) = 2"
      and c5: "count_or_1 (Some 5) = 5"
      by (simp_all add: count_or_1_def)
    have a1: "sync_activity user tt fd (Some 3) db =
        (\<lparr>sr_success = True, sr_message = ''Activity recorded'',
          sr_data = Counter (Some (next_id db)) tt fd 3\<rparr>, ?db1)"
      using sync_activity_created [OF e, of "Some 3"] by (simp only: c3)
    have s1: "select_activity (u_email user) tt fd ?db1 = [?row]"
      using e by (rule select_after_insert)
    have a2: "sync_activity user tt fd (Some 2) ?db1 =
        (\<lparr>sr_success = True, sr_message = ''No update needed (server has higher count)'',
          sr_data = Counter None tt fd 3\<rparr>, ?db1)"
      using sync_activity_unchanged [OF s1, of "Some 2"] by (simp add: c2)
    have a3: "fst (sync_activity user tt fd (Some 5) ?db1) =
        \<lparr>sr_success = True, sr_message = ''Activity updated'',
          sr_data = Counter None tt fd 5\<rparr>"
      using sync_activity_updated [OF s1, of "Some 5"] by (simp add: c5)
    show "fst (sync_loop toISODate user
                   [\<lparr>a_tracker_type = Some tt, a_activity_date = Some d, a_count = Some 3\<rparr>] [] db) =
              Some [\<lparr>sr_success = True, sr_message = ''Activity recorded'',
                     sr_data = Counter (Some (next_id db)) tt fd 3\<rparr>]
            \<and> fst (sync_loop toISODate user
                   [\<lparr>a_tracker_type = Some tt, a_activity_date = Some d, a_count = Some 2\<rparr>] []
                   (snd (sync_activity user tt fd (Some 3) db))) =
              Some [\<lparr>sr_success = True,
                     sr_message = ''No update needed (server has higher count)'',
                     sr_data = Counter None tt fd 3\<rparr>]
            \<and> fst (sync_loop toISODate user
                   [\<lparr>a_tracker_type = Some tt, a_activity_date = Some d, a_count = Some 5\<rparr>] []
                   (snd (sync_activity user tt fd (Some 2)
                      (snd (sync_activity user tt fd (Some 3) db))))) =
              Some [\<lparr>sr_success = True, sr_message = ''Activity updated'',
                     sr_data = Counter None tt fd 5\<rparr>]"
      by (simp only: l1 a1 a2 a3 snd_conv fst_conv)
  qed
  show ?thesis by (intro conjI) (fact L, fact N, fact K, fact C, fact U, fact S, fact X)
qed

text \<open>The three calls for \<^verbatim>\<open>break_things\<close> on 2025-01-01 against the empty table.\<close>
theorem reconcile_rule_witness:
  "''break_things'' \<noteq> [] \<and> ''2025-01-01'' \<noteq> []
   \<and> example_toISODate ''2025-01-01'' = Some ''2025-01-01''
   \<and> select_activity (u_email asha) ''break_things'' ''2025-01-01'' empty_table = []
   \<and> fst (sync_loop example_toISODate asha
          [\<lparr>a_tracker_type = Some ''break_things'', a_activity_date = Some ''2025-01-01'',
            a_count = Some 3\<rparr>] [] empty_table) =
        Some [\<lparr>sr_success = True, sr_message = ''Activity recorded'',
               sr_data = Counter (Some 1) ''break_things'' ''2025-01-01'' 3\<rparr>]
   \<and> fst (sync_loop example_toISODate asha
          [\<lparr>a_tracker_type = Some ''break_things'', a_activity_date = Some ''2025-01-01'',
            a_count = Some 2\<rparr>] []
          (snd (sync_activity asha ''break_things'' ''2025-01-01'' (Some 3) empty_table))) =
        Some [\<lparr>sr_success = True,
               sr_message = ''No update needed (server has higher count)'',
               sr_data = Counter None ''break_things'' ''2025-01-01'' 3\<rparr>]
   \<and> fst (sync_loop example_toISODate asha
          [\<lparr>a_tracker_type = Some ''break_things'', a_activity_date = Some ''2025-01-01'',
            a_count = Some 5\<rparr>] []
          (snd (sync_activity asha ''break_things'' ''2025-01-01'' (Some 2)
             (snd (sync_activity asha ''break_things'' ''2025-01-01'' (Some 3) empty_table))))) =
        Some [\<lparr>sr_success = True, sr_message = ''Activity updated'',
               sr_data = Counter None ''break_things'' ''2025-01-01'' 5\<rparr>]"
proof -
  have h1: "''break_things'' \<noteq> []" and h2: "''2025-01-01'' \<noteq> []" by simp_all
  have h3: "example_toISODate ''2025-01-01'' = Some ''2025-01-01''"
    by (simp add: example_toISODate_def)
  have h4: "select_activity (u_email asha) ''break_things'' ''2025-01-01'' empty_table = []"
    by (simp add: select_activity_def empty_table_def)
  have n: "next_id (empty_table :: mind_row table) = 1"
    by (simp add: empty_table_def)
  show ?thesis
    using reconcile_rule [where toISODate = example_toISODate and d = "''2025-01-01''"
        and tt = "''break_things''" and fd = "''2025-01-01''" and user = asha
        and db = empty_table and c = "Some 3" and rest = "[]" and results = "[]" and k = 3,
        OF h1 h2 h3] h1 h2 h3 h4 n
    by simp
qed

text \<open>
  Claim C1 as the specification words it fails: a client count of 0 is not omitted, and yet
  the row is inserted with 1.
\<close>
theorem reconcile_zero_counterexample:
  "sync_loop example_toISODate asha
     [\<lparr>a_tracker_type = Some ''break_things'', a_activity_date = Some ''2025-01-01'',
       a_count = Some 0\<rparr>] [] empty_table =
   (Some [\<lparr>sr_success = True, sr_message = ''Activity recorded'',
           sr_data = Counter (Some 1) ''break_things'' ''2025-01-01'' 1\<rparr>],
    \<lparr>rows = [\<lparr>m_id = 1, m_user_name = ''asha'', m_email = ''asha@example.com'',
              m_tracker_type = ''break_things'', m_activity_date = ''2025-01-01'',
              m_count = 1\<rparr>],
     next_id = 2\<rparr>)"
  by code_simp

text \<open>
  The same three calls as requests to the route, each on the table the call before left.
\<close>
lemma sync_scenario:
  "sync_calls example_jwt_verify example_toISODate [asha]
     [(Some ''Bearer token-of-asha'',
       Some [\<lparr>a_tracker_type = Some ''break_things'', a_activity_date = Some ''2025-01-01'',
              a_count = Some 3\<rparr>])] empty_table =
     \<lparr>rows = [\<lparr>m_id = 1, m_user_name = ''asha'', m_email = ''asha@example.com'',
               m_tracker_type = ''break_things'', m_activity_date = ''2025-01-01'',
               m_count = 3\<rparr>], next_id = 2\<rparr>
   \<and> fst (mind_tools_sync example_jwt_verify example_toISODate [asha]
        (Some ''Bearer token-of-asha'')
        (Some [\<lparr>a_tracker_type = Some ''break_things'', a_activity_date = Some ''2025-01-01'',
               a_count = Some 3\<rparr>]) empty_table) =
      SyncOk [\<lparr>sr_success = True, sr_message = ''Activity recorded'',
               sr_data = Counter (Some 1) ''break_things'' ''2025-01-01'' 3\<rparr>]
   \<and> mind_tools_sync example_jwt_verify example_toISODate [asha]
        (Some ''Bearer token-of-asha'')
        (Some [\<lparr>a_tracker_type = Some ''break_things'', a_activity_date = Some ''2025-01-01'',
               a_count = Some 2\<rparr>])
        \<lparr>rows = [\<lparr>m_id = 1, m_user_name = ''asha'', m_email = ''asha@example.com'',
                  m_tracker_type = ''break_things'', m_activity_date = ''2025-01-01'',
                  m_count = 3\<rparr>], next_id = 2\<rparr> =
      (SyncOk [\<lparr>sr_success = True,
                sr_message = ''No update needed (server has higher count)'',
                sr_data = Counter None ''break_things'' ''2025-01-01'' 3\<rparr>],
       \<lparr>rows = [\<lparr>m_id = 1, m_user_name = ''asha'', m_email = ''asha@example.com'',
                  m_tracker_type = ''break_things'', m_activity_date = ''2025-01-01'',
                  m_count = 3\<rparr>], next_id = 2\<rparr>)
   \<and> mind_tools_sync example_jwt_verify example_toISODate [asha]
        (Some ''Bearer token-of-asha'')
        (Some [\<lparr>a_tracker_type = Some ''break_things'', a_activity_date = Some ''2025-01-01'',
               a_count = Some 5\<rparr>])
        \<lparr>rows = [\<lparr>m_id = 1, m_user_name = ''asha'', m_email = ''asha@example.com'',
                  m_tracker_type = ''break_things'', m_activity_date = ''2025-01-01'',
                  m_count = 3\<rparr>], next_id = 2\<rparr> =
      (SyncOk [\<lparr>sr_success = True, sr_message = ''Activity updated'',
                sr_data = Counter None ''break_things'' ''2025-01-01'' 5\<rparr>],
       \<lparr>rows = [\<lparr>m_id = 1, m_user_name = ''asha'', m_email = ''asha@example.com'',
                  m_tracker_type = ''break_things'', m_activity_date = ''2025-01-01'',
                  m_count = 5\<rparr>], next_id = 2\<rparr>)"
  by code_simp

subsection \<open>Tables that only grow\<close>

lemma counts_never_decrease_iff:
  "counts_never_decrease db db' \<longleftrightarrow>
     length (rows db) \<le> length (rows db') \<and>
     (\<forall>i < length (rows db).
        m_id (rows db' ! i) = m_id (rows db ! i) \<and>
        m_user_name (rows db' ! i) = m_user_name (rows db ! i) \<and>
        m_email (rows db' ! i) = m_email (rows db ! i) \<and>
        m_tracker_type (rows db' ! i) = m_tracker_type (rows db ! i) \<and>
        m_activity_date (rows db' ! i) = m_activity_date (rows db ! i) \<and>
        m_count (rows db ! i) \<le> m_count (rows db' ! i))"
  by (auto simp: counts_never_decrease_def list_all2_conv_all_nth)

lemma counts_never_decrease_refl: "counts_never_decrease db db"
  by (simp add: counts_never_decrease_iff)

lemma counts_never_decrease_trans:
  assumes "counts_never_decrease a b" and "counts_never_decrease b c"
  shows "counts_never_decrease a c"
proof -
  from assms have len: "length (rows a) \<le> length (rows b)" "length (rows b) \<le> length (rows c)"
    by (simp_all add: counts_never_decrease_iff)
  show ?thesis
    unfolding counts_never_decrease_iff
  proof (intro conjI allI impI)
    show "length (rows a) \<le> length (rows c)" using len by simp
  next
    fix i assume i: "i < length (rows a)"
    then have j: "i < length (rows b)" using len by simp
    note ab = assms(1) [unfolded counts_never_decrease_iff, THEN conjunct2, rule_format, OF i]
    note bc = assms(2) [unfolded counts_never_decrease_iff, THEN conjunct2, rule_format, OF j]
    show "m_id (rows c ! i) = m_id (rows a ! i)" using ab bc by simp
    show "m_user_name (rows c ! i) = m_user_name (rows a ! i)" using ab bc by simp
    show "m_email (rows c ! i) = m_email (rows a ! i)" using ab bc by simp
    show "m_tracker_type (rows c ! i) = m_tracker_type (rows a ! i)" using ab bc by simp
    show "m_activity_date (rows c ! i) = m_activity_date (rows a ! i)" using ab bc by simp
    show "m_count (rows a ! i) \<le> m_count (rows c ! i)" using ab bc by simp
  qed
qed

lemma select_activity_subset: "select_activity e tt fd db = r # rs \<Longrightarrow> r \<in> set (rows db)"
proof -
  assume "select_activity e tt fd db = r # rs"
  then have "r \<in> set (select_activity e tt fd db)" by simp
  then show ?thesis by (simp add: select_activity_def)
qed

lemma primary_key_same_row:
  "primary_key db \<Longrightarrow> x \<in> set (rows db) \<Longrightarrow> r \<in> set (rows db) \<Longrightarrow> m_id x = m_id r \<Longrightarrow> x = r"
  by (auto simp: primary_key_def distinct_map dest: inj_onD)

lemma insert_grows:
  assumes "primary_key db"
  shows "counts_never_decrease db (db\<lparr>rows := rows db @ [row\<lparr>m_id := next_id db\<rparr>],
                                       next_id := next_id db + 1\<rparr>)"
    and "primary_key (db\<lparr>rows := rows db @ [row\<lparr>m_id := next_id db\<rparr>],
                         next_id := next_id db + 1\<rparr>)"
proof -
  show "counts_never_decrease db (db\<lparr>rows := rows db @ [row\<lparr>m_id := next_id db\<rparr>],
                                       next_id := next_id db + 1\<rparr>)"
    by (simp add: counts_never_decrease_iff nth_append)
  have "\<forall>r \<in> set (rows db). m_id r < next_id db"
    using assms by (simp add: primary_key_def list_all_iff)
  then show "primary_key (db\<lparr>rows := rows db @ [row\<lparr>m_id := next_id db\<rparr>],
                         next_id := next_id db + 1\<rparr>)"
    using assms by (auto simp: primary_key_def list_all_iff less_Suc_eq)
qed

lemma update_grows:
  assumes pk: "primary_key db" and r: "r \<in> set (rows db)" and lt: "m_count r < k"
  shows "counts_never_decrease db
           (db\<lparr>rows := map (\<lambda>x. if m_id x = m_id r then x\<lparr>m_count := k\<rparr> else x) (rows db)\<rparr>)"
    and "primary_key
           (db\<lparr>rows := map (\<lambda>x. if m_id x = m_id r then x\<lparr>m_count := k\<rparr> else x) (rows db)\<rparr>)"
proof -
  let ?f = "\<lambda>x. if m_id x = m_id r then x\<lparr>m_count := k\<rparr> else x"
  have same: "x \<in> set (rows db) \<Longrightarrow> m_id x = m_id r \<Longrightarrow> x = r" for x
    using primary_key_same_row [OF pk _ r] by blast
  have "m_count (rows db ! i) \<le> m_count (?f (rows db ! i))" if "i < length (rows db)" for i
  proof (cases "m_id (rows db ! i) = m_id r")
    case True
    with that have "rows db ! i = r" by (intro same) simp_all
    with lt True show ?thesis by simp
  next
    case False
    then show ?thesis by simp
  qed
  then show "counts_never_decrease db (db\<lparr>rows := map ?f (rows db)\<rparr>)"
    by (simp add: counts_never_decrease_iff)
  have ids: "map m_id (map ?f xs) = map m_id xs" for xs
    by (induction xs) auto
  have "distinct (map m_id (rows db))"
    using pk by (simp only: primary_key_def)
  then have "distinct (map m_id (map ?f (rows db)))"
    by (simp only: ids)
  moreover have "list_all (\<lambda>r. m_id r < next_id db) (map ?f (rows db))"
    using pk by (auto simp: primary_key_def list_all_iff)
  moreover have "rows (db\<lparr>rows := map ?f (rows db)\<rparr>) = map ?f (rows db)"
    and "next_id (db\<lparr>rows := map ?f (rows db)\<rparr>) = next_id db"
    by simp_all
  ultimately show "primary_key (db\<lparr>rows := map ?f (rows db)\<rparr>)"
    by (simp only: primary_key_def)
qed

lemma sync_activity_grows:
  assumes pk: "primary_key db"
  shows "counts_never_decrease db (snd (sync_activity user tt fd c db))
       \<and> primary_key (snd (sync_activity user tt fd c db))"
proof (cases "select_activity (u_email user) tt fd db")
  case Nil
  let ?row = "\<lparr>m_id = 0, m_user_name = u_name user, m_email = u_email user,
               m_tracker_type = tt, m_activity_date = fd, m_count = count_or_1 c\<rparr>"
  show ?thesis
    using insert_grows [OF pk, of ?row] by (simp add: sync_activity_created [OF Nil])
next
  case (Cons r rs)
  then have r: "r \<in> set (rows db)" by (rule select_activity_subset)
  show ?thesis
  proof (cases "m_count r < count_or_1 c")
    case True
    show ?thesis
      using update_grows [OF pk r True] by (simp add: sync_activity_updated [OF Cons True])
  next
    case False
    then have "count_or_1 c \<le> m_count r" by simp
    then show ?thesis
      using pk by (simp add: sync_activity_unchanged [OF Cons] counts_never_decrease_refl)
  qed
qed

lemma sync_loop_grows:
  "primary_key db \<Longrightarrow>
   counts_never_decrease db (snd (sync_loop toISODate user acts results db))
   \<and> primary_key (snd (sync_loop toISODate user acts results db))"
proof (induction acts arbitrary: results db)
  case Nil
  then show ?case by (simp add: counts_never_decrease_refl)
next
  case (Cons a acts)
  show ?case
  proof (cases "\<not> truthy (a_tracker_type a) \<or> \<not> truthy (a_activity_date a)")
    case True
    then show ?thesis using Cons.IH [OF Cons.prems] by auto
  next
    case False
    show ?thesis
    proof (cases "toISODate (the (a_activity_date a))")
      case None
      then show ?thesis using False Cons.prems by (simp add: counts_never_decrease_refl)
    next
      case (Some fd)
      let ?s = "sync_activity user (the (a_tracker_type a)) fd (a_count a) db"
      have step: "counts_never_decrease db (snd ?s)" "primary_key (snd ?s)"
        using sync_activity_grows [OF Cons.prems] by blast+
      have eq: "sync_loop toISODate user (a # acts) results db =
          sync_loop toISODate user acts (results @ [fst ?s]) (snd ?s)"
        using False Some by (simp split: prod.splits)
      show ?thesis
        unfolding eq
        using Cons.IH [OF step(2)] counts_never_decrease_trans [OF step(1)] by blast
    qed
  qed
qed

lemma mind_tools_sync_grows:
  assumes "primary_key db"
  shows "counts_never_decrease db
           (snd (mind_tools_sync jwt_verify toISODate users authHeader activities db))
       \<and> primary_key (snd (mind_tools_sync jwt_verify toISODate users authHeader activities db))"
proof -
  have "snd (mind_tools_sync jwt_verify toISODate users authHeader activities db) = db
      \<or> (\<exists>user acts. snd (mind_tools_sync jwt_verify toISODate users authHeader activities db) =
            snd (sync_loop toISODate user acts [] db))"
    by (auto simp: mind_tools_sync_def split: option.splits list.splits prod.splits)
      (metis snd_conv)+
  then show ?thesis
    using assms sync_loop_grows [OF assms] by (auto simp: counts_never_decrease_refl)
qed

lemma sync_calls_grows:
  "primary_key db \<Longrightarrow>
   counts_never_decrease db (sync_calls jwt_verify toISODate users reqs db)
   \<and> primary_key (sync_calls jwt_verify toISODate users reqs db)"
proof (induction reqs arbitrary: db)
  case Nil
  then show ?case by (simp add: counts_never_decrease_refl)
next
  case (Cons req reqs)
  obtain authHeader activities where req: "req = (authHeader, activities)"
    by (cases req)
  let ?db1 = "snd (mind_tools_sync jwt_verify toISODate users authHeader activities db)"
  have step: "counts_never_decrease db ?db1" "primary_key ?db1"
    using mind_tools_sync_grows [OF Cons.prems] by blast+
  show ?case
    unfolding req sync_calls.simps
    using Cons.IH [OF step(2)] counts_never_decrease_trans [OF step(1)] by blast
qed

subsection \<open>Stored counts never decrease\<close>

text \<open>
  Claim C2. On a table whose ids are a primary key, after any sequence of sync requests
  (any headers, any bodies) every row that was there is still in its place with the same id,
  user, tracker type and date, its count is equal or greater, and a row that differs from
  what it was has a strictly greater count. The primary key still holds afterwards.
\<close>
theorem counts_grow:
  assumes "primary_key db"
  shows "primary_key (sync_calls jwt_verify toISODate users reqs db)
       \<and> counts_never_decrease db (sync_calls jwt_verify toISODate users reqs db)
       \<and> (\<forall>i < length (rows db).
            m_count (rows db ! i) \<le> m_count (rows (sync_calls jwt_verify toISODate users reqs db) ! i)
            \<and> (rows (sync_calls jwt_verify toISODate users reqs db) ! i \<noteq> rows db ! i \<longrightarrow>
                 m_count (rows db ! i) <
                   m_count (rows (sync_calls jwt_verify toISODate users reqs db) ! i)))"
proof -
  let ?db' = "sync_calls jwt_verify toISODate users reqs db"
  have g: "counts_never_decrease db ?db'" and pk: "primary_key ?db'"
    using sync_calls_grows [OF assms] by blast+
  have "m_count (rows db ! i) \<le> m_count (rows ?db' ! i)
      \<and> (rows ?db' ! i \<noteq> rows db ! i \<longrightarrow> m_count (rows db ! i) < m_count (rows ?db' ! i))"
    if i: "i < length (rows db)" for i
  proof -
    note f = g [unfolded counts_never_decrease_iff, THEN conjunct2, rule_format, OF i]
    have "rows ?db' ! i = rows db ! i" if "m_count (rows ?db' ! i) = m_count (rows db ! i)"
      using f that by (intro mind_row.equality) simp_all
    with f show ?thesis by force
  qed
  with g pk show ?thesis by blast
qed

text \<open>A stored count of 3, then requests with counts 2 and 5.\<close>
theorem counts_grow_witness:
  "primary_key
     \<lparr>rows = [\<lparr>m_id = 1, m_user_name = ''asha'', m_email = ''asha@example.com'',
               m_tracker_type = ''break_things'', m_activity_date = ''2025-01-01'',
               m_count = 3\<rparr>], next_id = 2\<rparr>
   \<and> rows (sync_calls example_jwt_verify example_toISODate [asha]
        [(Some ''Bearer token-of-asha'',
          Some [\<lparr>a_tracker_type = Some ''break_things'', a_activity_date = Some ''2025-01-01'',
                 a_count = Some 2\<rparr>]),
         (Some ''Bearer token-of-asha'',
          Some [\<lparr>a_tracker_type = Some ''break_things'', a_activity_date = Some ''2025-01-01'',
                 a_count = Some 5\<rparr>])]
        \<lparr>rows = [\<lparr>m_id = 1, m_user_name = ''asha'', m_email = ''asha@example.com'',
                  m_tracker_type = ''break_things'', m_activity_date = ''2025-01-01'',
                  m_count = 3\<rparr>], next_id = 2\<rparr>) =
       [\<lparr>m_id = 1, m_user_name = ''asha'', m_email = ''asha@example.com'',
         m_tracker_type = ''break_things'', m_activity_date = ''2025-01-01'', m_count = 5\<rparr>]
   \<and> counts_never_decrease
        \<lparr>rows = [\<lparr>m_id = 1, m_user_name = ''asha'', m_email = ''asha@example.com'',
                  m_tracker_type = ''break_things'', m_activity_date = ''2025-01-01'',
                  m_count = 3\<rparr>], next_id = 2\<rparr>
        (sync_calls example_jwt_verify example_toISODate [asha]
        [(Some ''Bearer token-of-asha'',
          Some [\<lparr>a_tracker_type = Some ''break_things'', a_activity_date = Some ''2025-01-01'',
                 a_count = Some 2\<rparr>]),
         (Some ''Bearer token-of-asha'',
          Some [\<lparr>a_tracker_type = Some ''break_things'', a_activity_date = Some ''2025-01-01'',
                 a_count = Some 5\<rparr>])]
        \<lparr>rows = [\<lparr>m_id = 1, m_user_name = ''asha'', m_email = ''asha@example.com'',
                  m_tracker_type = ''break_things'', m_activity_date = ''2025-01-01'',
                  m_count = 3\<rparr>], next_id = 2\<rparr>)"
proof -
  let ?db = "\<lparr>rows = [\<lparr>m_id = 1, m_user_name = ''asha'', m_email = ''asha@example.com'',
               m_tracker_type = ''break_things'', m_activity_date = ''2025-01-01'',
               m_count = 3\<rparr>], next_id = 2\<rparr>"
  let ?reqs = "[(Some ''Bearer token-of-asha'',
          Some [\<lparr>a_tracker_type = Some ''break_things'', a_activity_date = Some ''2025-01-01'',
                 a_count = Some 2\<rparr>]),
         (Some ''Bearer token-of-asha'',
          Some [\<lparr>a_tracker_type = Some ''break_things'', a_activity_date = Some ''2025-01-01'',
                 a_count = Some 5\<rparr>])]"
  have pk: "primary_key ?db"
    by (simp add: primary_key_def)
  have ev: "rows (sync_calls example_jwt_verify example_toISODate [asha] ?reqs ?db) =
       [\<lparr>m_id = 1, m_user_name = ''asha'', m_email = ''asha@example.com'',
         m_tracker_type = ''break_things'', m_activity_date = ''2025-01-01'', m_count = 5\<rparr>]"
    by code_simp
  show ?thesis
    using counts_grow [OF pk, of example_jwt_verify example_toISODate "[asha]" ?reqs] pk ev
    by simp
qed

lemma count_or_1_zero: "count_or_1 (Some 0) = 1" "count_or_1 None = 1" "count_or_1 (Some 1) = 1"
  by (simp_all add: count_or_1_def)

lemma sync_activity_count:
  "count_or_1 c = count_or_1 c' \<Longrightarrow> sync_activity user tt fd c db = sync_activity user tt fd c' db"
  by (simp add: sync_activity_def split: list.splits)

lemma sync_activity_written:
  "r \<in> set (rows (snd (sync_activity user tt fd c db))) \<Longrightarrow> r \<notin> set (rows db) \<Longrightarrow>
   m_count r = count_or_1 c"
  by (auto simp: sync_activity_def Let_def split: list.splits if_splits)

lemma sync_loop_written:
  "r \<in> set (rows (snd (sync_loop toISODate user acts results db))) \<Longrightarrow> r \<notin> set (rows db) \<Longrightarrow>
   m_count r \<noteq> 0"
proof (induction acts arbitrary: results db)
  case Nil
  then show ?case by simp
next
  case (Cons a acts)
  show ?case
  proof (cases "\<not> truthy (a_tracker_type a) \<or> \<not> truthy (a_activity_date a)")
    case True
    then show ?thesis using Cons by auto
  next
    case False
    show ?thesis
    proof (cases "toISODate (the (a_activity_date a))")
      case None
      then show ?thesis using False Cons.prems by simp
    next
      case (Some fd)
      let ?s = "sync_activity user (the (a_tracker_type a)) fd (a_count a) db"
      have eq: "sync_loop toISODate user (a # acts) results db =
          sync_loop toISODate user acts (results @ [fst ?s]) (snd ?s)"
        using False Some by (simp split: prod.splits)
      show ?thesis
      proof (cases "r \<in> set (rows (snd ?s))")
        case True
        from True Cons.prems(2) have "m_count r = count_or_1 (a_count a)"
          by (rule sync_activity_written)
        then show ?thesis by (simp add: count_or_1_nonzero)
      next
        case False
        with Cons.prems(1) show ?thesis
          unfolding eq by (rule Cons.IH)
      qed
    qed
  qed
qed

lemma mind_tools_sync_valid:
  assumes "startsWith h ''Bearer ''"
    and "nth_opt (js_split h '' '') 1 = Some token"
    and "jwt_verify token = Some uid"
    and "filter (\<lambda>u. u_id u = uid) users = user # us"
    and "acts \<noteq> []"
  shows "mind_tools_sync jwt_verify toISODate users (Some h) (Some acts) db =
     (case sync_loop toISODate user acts [] db of
        (None, db') \<Rightarrow> (SyncError 500 ''Error syncing activities'', db')
      | (Some results, db') \<Rightarrow> (SyncOk results, db'))"
proof -
  from assms(1) have "h \<noteq> []" by (auto simp: startsWith_def)
  with assms show ?thesis
    by (simp add: mind_tools_sync_def)
qed

lemma sync_loop_single:
  assumes "tt \<noteq> []" and "d \<noteq> []" and "toISODate d = Some fd"
  shows "sync_loop toISODate user
           [\<lparr>a_tracker_type = Some tt, a_activity_date = Some d, a_count = c\<rparr>] [] db =
         (Some [fst (sync_activity user tt fd c db)], snd (sync_activity user tt fd c db))"
  using assms by (simp add: truthy_def split: prod.splits)

lemma mind_tools_sync_single:
  assumes "startsWith h ''Bearer ''"
    and "nth_opt (js_split h '' '') 1 = Some token"
    and "jwt_verify token = Some uid"
    and "filter (\<lambda>u. u_id u = uid) users = user # us"
    and "tt \<noteq> []" and "d \<noteq> []" and "toISODate d = Some fd"
  shows "mind_tools_sync jwt_verify toISODate users (Some h)
           (Some [\<lparr>a_tracker_type = Some tt, a_activity_date = Some d, a_count = c\<rparr>]) db =
         (SyncOk [fst (sync_activity user tt fd c db)], snd (sync_activity user tt fd c db))"
proof -
  have ne: "[\<lparr>a_tracker_type = Some tt, a_activity_date = Some d, a_count = c\<rparr>] \<noteq> []"
    by simp
  show ?thesis
    by (simp only: mind_tools_sync_valid [where jwt_verify = jwt_verify and token = token, OF assms(1-4) ne]
        sync_loop_single [where toISODate = toISODate and d = d, OF assms(5-7)]
        prod.case option.case)
qed

lemma mind_tools_sync_written:
  "w \<in> set (rows (snd (mind_tools_sync jwt_verify toISODate users authHeader activities db))) \<Longrightarrow>
   w \<notin> set (rows db) \<Longrightarrow> m_count w \<noteq> 0"
proof -
  assume w: "w \<in> set (rows (snd (mind_tools_sync jwt_verify toISODate users authHeader activities db)))"
    and n: "w \<notin> set (rows db)"
  have "snd (mind_tools_sync jwt_verify toISODate users authHeader activities db) = db
      \<or> (\<exists>user acts. snd (mind_tools_sync jwt_verify toISODate users authHeader activities db) =
            snd (sync_loop toISODate user acts [] db))"
    by (auto simp: mind_tools_sync_def split: option.splits list.splits prod.splits)
      (metis snd_conv)+
  with w n show ?thesis
    using sync_loop_written by metis
qed

subsection \<open>A count of zero\<close>

text \<open>
  Claim C10. The merge with a client count of 0 is the merge with the count omitted, and the
  merge with a count of 1; so is the loop, for an item with a tracker type and a date. With no
  row stored for (email, tracker type, date), the row inserted for a count of 0 has count 1;
  with a row whose count is below 1, that row's count becomes 1; with a row whose count is 1
  or more, nothing is written. No row that the loop or the route writes has count 0. Under
  a valid token of a known user, the route answers a one-item batch with count 0 as it
  answers the same batch with the count omitted: \<^verbatim>\<open>Activity recorded\<close> with count 1 and
  the new row when no row is stored, \<^verbatim>\<open>Activity updated\<close> with count 1 when the stored count
  is below 1, and the stored count with no write when it is 1 or more.
\<close>
theorem zero_count_is_one:
  "sync_activity user tt fd (Some 0) db = sync_activity user tt fd None db
   \<and> sync_activity user tt fd (Some 0) db = sync_activity user tt fd (Some 1) db
   \<and> (truthy (a_tracker_type a) \<and> truthy (a_activity_date a) \<longrightarrow>
        sync_loop toISODate user (a\<lparr>a_count := Some 0\<rparr> # rest) results db =
        sync_loop toISODate user (a\<lparr>a_count := None\<rparr> # rest) results db)
   \<and> (filter (\<lambda>x. m_email x = u_email user \<and> m_tracker_type x = tt \<and> m_activity_date x = fd)
          (rows db) = [] \<longrightarrow>
        rows (snd (sync_activity user tt fd (Some 0) db)) = rows db @
          [\<lparr>m_id = next_id db, m_user_name = u_name user, m_email = u_email user,
            m_tracker_type = tt, m_activity_date = fd, m_count = 1\<rparr>])
   \<and> (filter (\<lambda>x. m_email x = u_email user \<and> m_tracker_type x = tt \<and> m_activity_date x = fd)
          (rows db) = r # rs \<and> m_count r < 1 \<longrightarrow>
        hd (filter (\<lambda>x. m_email x = u_email user \<and> m_tracker_type x = tt
                        \<and> m_activity_date x = fd)
              (rows (snd (sync_activity user tt fd (Some 0) db)))) = r\<lparr>m_count := 1\<rparr>)
   \<and> (filter (\<lambda>x. m_email x = u_email user \<and> m_tracker_type x = tt \<and> m_activity_date x = fd)
          (rows db) = r # rs \<and> 1 \<le> m_count r \<longrightarrow>
        snd (sync_activity user tt fd (Some 0) db) = db)
   \<and> (\<forall>w \<in> set (rows (snd (sync_loop toISODate user acts results db))).
        w \<notin> set (rows db) \<longrightarrow> m_count w \<noteq> 0)
   \<and> (\<forall>w \<in> set (rows (snd (mind_tools_sync jwt_verify toISODate users authHeader
                               activities db))).
        w \<notin> set (rows db) \<longrightarrow> m_count w \<noteq> 0)
   \<and> (startsWith h ''Bearer '' \<and> nth_opt (js_split h '' '') 1 = Some token
        \<and> jwt_verify token = Some uid \<and> filter (\<lambda>u. u_id u = uid) users = user # us
        \<and> tt \<noteq> [] \<and> d \<noteq> [] \<and> toISODate d = Some fd \<longrightarrow>
        mind_tools_sync jwt_verify toISODate users (Some h)
          (Some [\<lparr>a_tracker_type = Some tt, a_activity_date = Some d, a_count = Some 0\<rparr>]) db =
        mind_tools_sync jwt_verify toISODate users (Some h)
          (Some [\<lparr>a_tracker_type = Some tt, a_activity_date = Some d, a_count = None\<rparr>]) db
        \<and> (filter (\<lambda>x. m_email x = u_email user \<and> m_tracker_type x = tt
                         \<and> m_activity_date x = fd) (rows db) = [] \<longrightarrow>
             mind_tools_sync jwt_verify toISODate users (Some h)
               (Some [\<lparr>a_tracker_type = Some tt, a_activity_date = Some d,
                       a_count = Some 0\<rparr>]) db =
             (SyncOk [\<lparr>sr_success = True, sr_message = ''Activity recorded'',
                       sr_data = Counter (Some (next_id db)) tt fd 1\<rparr>],
              db\<lparr>rows := rows db @
                   [\<lparr>m_id = next_id db, m_user_name = u_name user, m_email = u_email user,
                     m_tracker_type = tt, m_activity_date = fd, m_count = 1\<rparr>],
                 next_id := next_id db + 1\<rparr>))
        \<and> (filter (\<lambda>x. m_email x = u_email user \<and> m_tracker_type x = tt
                         \<and> m_activity_date x = fd) (rows db) = r # rs \<and> m_count r < 1 \<longrightarrow>
             mind_tools_sync jwt_verify toISODate users (Some h)
               (Some [\<lparr>a_tracker_type = Some tt, a_activity_date = Some d,
                       a_count = Some 0\<rparr>]) db =
             (SyncOk [\<lparr>sr_success = True, sr_message = ''Activity updated'',
                       sr_data = Counter None tt fd 1\<rparr>],
              db\<lparr>rows := map (\<lambda>x. if m_id x = m_id r then x\<lparr>m_count := 1\<rparr> else x)
                              (rows db)\<rparr>))
        \<and> (filter (\<lambda>x. m_email x = u_email user \<and> m_tracker_type x = tt
                         \<and> m_activity_date x = fd) (rows db) = r # rs \<and> 1 \<le> m_count r \<longrightarrow>
             mind_tools_sync jwt_verify toISODate users (Some h)
               (Some [\<lparr>a_tracker_type = Some tt, a_activity_date = Some d,
                       a_count = Some 0\<rparr>]) db =
             (SyncOk [\<lparr>sr_success = True,
                       sr_message = ''No update needed (server has higher count)'',
                       sr_data = Counter None tt fd (m_count r)\<rparr>], db)))"
  (is "?A \<and> ?B \<and> ?C \<and> ?D \<and> ?E \<and> ?F \<and> ?G \<and> ?H \<and> (?V \<longrightarrow> ?R)")
proof -
  have sel: "filter (\<lambda>x. m_email x = u_email user \<and> m_tracker_type x = tt \<and> m_activity_date x = fd)
      (rows t) = select_activity (u_email user) tt fd t" for t
    by (simp add: select_activity_def)
  have A: ?A by (rule sync_activity_count) (simp add: count_or_1_zero)
  have B: ?B by (rule sync_activity_count) (simp add: count_or_1_zero)
  have "sync_activity user t f (Some 0) db = sync_activity user t f None db" for t f
    by (rule sync_activity_count) (simp add: count_or_1_zero)
  then have C: ?C by (auto split: option.splits)
  have D: ?D unfolding sel by (simp add: sync_activity_created count_or_1_zero)
  have E: ?E
    unfolding sel
  proof (intro impI, elim conjE)
    assume s: "select_activity (u_email user) tt fd db = r # rs" and lt: "m_count r < 1"
    from lt have lt': "m_count r < count_or_1 (Some 0)" by (simp add: count_or_1_zero)
    show "hd (select_activity (u_email user) tt fd (snd (sync_activity user tt fd (Some 0) db))) =
          r\<lparr>m_count := 1\<rparr>"
      by (simp add: sync_activity_updated [OF s lt'] select_after_update [OF s] count_or_1_zero)
  qed
  have F: ?F
    unfolding sel
  proof (intro impI, elim conjE)
    assume s: "select_activity (u_email user) tt fd db = r # rs" and le: "1 \<le> m_count r"
    from le have le': "count_or_1 (Some 0) \<le> m_count r" by (simp add: count_or_1_zero)
    show "snd (sync_activity user tt fd (Some 0) db) = db"
      by (simp add: sync_activity_unchanged [OF s le'])
  qed
  have G: ?G using sync_loop_written by blast
  have H: ?H using mind_tools_sync_written by blast
  have R: "?V \<longrightarrow> ?R"
  proof
    assume v: ?V
    then have v1: "startsWith h ''Bearer ''" and v2: "nth_opt (js_split h '' '') 1 = Some token"
      and v3: "jwt_verify token = Some uid"
      and v4: "filter (\<lambda>u. u_id u = uid) users = user # us"
      and v5: "tt \<noteq> []" and v6: "d \<noteq> []" and v7: "toISODate d = Some fd"
      by simp_all
    have route: "mind_tools_sync jwt_verify toISODate users (Some h)
           (Some [\<lparr>a_tracker_type = Some tt, a_activity_date = Some d, a_count = c\<rparr>]) db =
         (SyncOk [fst (sync_activity user tt fd c db)], snd (sync_activity user tt fd c db))"
      for c
      using v1 v2 v3 v4 v5 v6 v7 by (rule mind_tools_sync_single)
    have r1: "mind_tools_sync jwt_verify toISODate users (Some h)
          (Some [\<lparr>a_tracker_type = Some tt, a_activity_date = Some d, a_count = Some 0\<rparr>]) db =
        mind_tools_sync jwt_verify toISODate users (Some h)
          (Some [\<lparr>a_tracker_type = Some tt, a_activity_date = Some d, a_count = None\<rparr>]) db"
      by (simp only: route A)
    have r2: "select_activity (u_email user) tt fd db = [] \<longrightarrow>
             mind_tools_sync jwt_verify toISODate users (Some h)
               (Some [\<lparr>a_tracker_type = Some tt, a_activity_date = Some d,
                       a_count = Some 0\<rparr>]) db =
             (SyncOk [\<lparr>sr_success = True, sr_message = ''Activity recorded'',
                       sr_data = Counter (Some (next_id db)) tt fd 1\<rparr>],
              db\<lparr>rows := rows db @
                   [\<lparr>m_id = next_id db, m_user_name = u_name user, m_email = u_email user,
                     m_tracker_type = tt, m_activity_date = fd, m_count = 1\<rparr>],
                 next_id := next_id db + 1\<rparr>)"
      by (simp add: route sync_activity_created count_or_1_zero)
    have r3: "select_activity (u_email user) tt fd db = r # rs \<and> m_count r < 1 \<longrightarrow>
             mind_tools_sync jwt_verify toISODate users (Some h)
               (Some [\<lparr>a_tracker_type = Some tt, a_activity_date = Some d,
                       a_count = Some 0\<rparr>]) db =
             (SyncOk [\<lparr>sr_success = True, sr_message = ''Activity updated'',
                       sr_data = Counter None tt fd 1\<rparr>],
              db\<lparr>rows := map (\<lambda>x. if m_id x = m_id r then x\<lparr>m_count := 1\<rparr> else x)
                              (rows db)\<rparr>)"
    proof (intro impI, elim conjE)
      assume s: "select_activity (u_email user) tt fd db = r # rs" and lt: "m_count r < 1"
      from lt have lt': "m_count r < count_or_1 (Some 0)" by (simp add: count_or_1_zero)
      show "mind_tools_sync jwt_verify toISODate users (Some h)
               (Some [\<lparr>a_tracker_type = Some tt, a_activity_date = Some d,
                       a_count = Some 0\<rparr>]) db =
             (SyncOk [\<lparr>sr_success = True, sr_message = ''Activity updated'',
                       sr_data = Counter None tt fd 1\<rparr>],
              db\<lparr>rows := map (\<lambda>x. if m_id x = m_id r then x\<lparr>m_count := 1\<rparr> else x)
                              (rows db)\<rparr>)"
        by (simp add: route sync_activity_updated [OF s lt'] count_or_1_zero)
    qed
    have r4: "select_activity (u_email user) tt fd db = r # rs \<and> 1 \<le> m_count r \<longrightarrow>
             mind_tools_sync jwt_verify toISODate users (Some h)
               (Some [\<lparr>a_tracker_type = Some tt, a_activity_date = Some d,
                       a_count = Some 0\<rparr>]) db =
             (SyncOk [\<lparr>sr_success = True,
                       sr_message = ''No update needed (server has higher count)'',
                       sr_data = Counter None tt fd (m_count r)\<rparr>], db)"
    proof (intro impI, elim conjE)
      assume s: "select_activity (u_email user) tt fd db = r # rs" and le: "1 \<le> m_count r"
      from le have le': "count_or_1 (Some 0) \<le> m_count r" by (simp add: count_or_1_zero)
      show "mind_tools_sync jwt_verify toISODate users (Some h)
               (Some [\<lparr>a_tracker_type = Some tt, a_activity_date = Some d,
                       a_count = Some 0\<rparr>]) db =
             (SyncOk [\<lparr>sr_success = True,
                       sr_message = ''No update needed (server has higher count)'',
                       sr_data = Counter None tt fd (m_count r)\<rparr>], db)"
        by (simp add: route sync_activity_unchanged [OF s le'])
    qed
    show ?R
      unfolding sel by (intro conjI) (fact r1, fact r2, fact r3, fact r4)
  qed
  show ?thesis by (intro conjI) (fact A, fact B, fact C, fact D, fact E, fact F, fact G, fact H, fact R)
qed

text \<open>
  The route with a count of 0 against the empty table (a row with count 1 is inserted),
  against a stored count of 3 (nothing is written) and against a stored count of -5 (the
  count becomes 1).
\<close>
theorem zero_count_is_one_witness:
  "mind_tools_sync example_jwt_verify example_toISODate [asha] (Some ''Bearer token-of-asha'')
     (Some [\<lparr>a_tracker_type = Some ''break_things'', a_activity_date = Some ''2025-01-01'',
             a_count = Some 0\<rparr>]) empty_table =
     (SyncOk [\<lparr>sr_success = True, sr_message = ''Activity recorded'',
               sr_data = Counter (Some 1) ''break_things'' ''2025-01-01'' 1\<rparr>],
      \<lparr>rows = [\<lparr>m_id = 1, m_user_name = ''asha'', m_email = ''asha@example.com'',
                m_tracker_type = ''break_things'', m_activity_date = ''2025-01-01'',
                m_count = 1\<rparr>], next_id = 2\<rparr>)
   \<and> mind_tools_sync example_jwt_verify example_toISODate [asha] (Some ''Bearer token-of-asha'')
     (Some [\<lparr>a_tracker_type = Some ''break_things'', a_activity_date = Some ''2025-01-01'',
             a_count = None\<rparr>]) empty_table =
     (SyncOk [\<lparr>sr_success = True, sr_message = ''Activity recorded'',
               sr_data = Counter (Some 1) ''break_things'' ''2025-01-01'' 1\<rparr>],
      \<lparr>rows = [\<lparr>m_id = 1, m_user_name = ''asha'', m_email = ''asha@example.com'',
                m_tracker_type = ''break_things'', m_activity_date = ''2025-01-01'',
                m_count = 1\<rparr>], next_id = 2\<rparr>)
   \<and> mind_tools_sync example_jwt_verify example_toISODate [asha] (Some ''Bearer token-of-asha'')
     (Some [\<lparr>a_tracker_type = Some ''break_things'', a_activity_date = Some ''2025-01-01'',
             a_count = Some 0\<rparr>])
     \<lparr>rows = [\<lparr>m_id = 1, m_user_name = ''asha'', m_email = ''asha@example.com'',
               m_tracker_type = ''break_things'', m_activity_date = ''2025-01-01'',
               m_count = 3\<rparr>], next_id = 2\<rparr> =
     (SyncOk [\<lparr>sr_success = True,
               sr_message = ''No update needed (server has higher count)'',
               sr_data = Counter None ''break_things'' ''2025-01-01'' 3\<rparr>],
      \<lparr>rows = [\<lparr>m_id = 1, m_user_name = ''asha'', m_email = ''asha@example.com'',
                m_tracker_type = ''break_things'', m_activity_date = ''2025-01-01'',
                m_count = 3\<rparr>], next_id = 2\<rparr>)
   \<and> mind_tools_sync example_jwt_verify example_toISODate [asha] (Some ''Bearer token-of-asha'')
     (Some [\<lparr>a_tracker_type = Some ''break_things'', a_activity_date = Some ''2025-01-01'',
             a_count = Some 0\<rparr>])
     \<lparr>rows = [\<lparr>m_id = 1, m_user_name = ''asha'', m_email = ''asha@example.com'',
               m_tracker_type = ''break_things'', m_activity_date = ''2025-01-01'',
               m_count = - 5\<rparr>], next_id = 2\<rparr> =
     (SyncOk [\<lparr>sr_success = True, sr_message = ''Activity updated'',
               sr_data = Counter None ''break_things'' ''2025-01-01'' 1\<rparr>],
      \<lparr>rows = [\<lparr>m_id = 1, m_user_name = ''asha'', m_email = ''asha@example.com'',
                m_tracker_type = ''break_things'', m_activity_date = ''2025-01-01'',
                m_count = 1\<rparr>], next_id = 2\<rparr>)"
proof -
  let ?h = "''Bearer token-of-asha''"
  let ?key = "\<lambda>x. m_email x = u_email asha \<and> m_tracker_type x = ''break_things''
                  \<and> m_activity_date x = ''2025-01-01''"
  let ?r3 = "\<lparr>m_id = 1, m_user_name = ''asha'', m_email = ''asha@example.com'',
               m_tracker_type = ''break_things'', m_activity_date = ''2025-01-01'',
               m_count = 3\<rparr>"
  let ?rm = "\<lparr>m_id = 1, m_user_name = ''asha'', m_email = ''asha@example.com'',
               m_tracker_type = ''break_things'', m_activity_date = ''2025-01-01'',
               m_count = - 5\<rparr>"
  let ?db3 = "\<lparr>rows = [?r3], next_id = 2\<rparr>"
  let ?dbm = "\<lparr>rows = [?rm], next_id = 2\<rparr>"
  have v1: "startsWith ?h ''Bearer ''" by code_simp
  have v2: "nth_opt (js_split ?h '' '') 1 = Some ''token-of-asha''" by code_simp
  have v3: "example_jwt_verify ''token-of-asha'' = Some 7"
    by (simp add: example_jwt_verify_def)
  have v4: "filter (\<lambda>u. u_id u = 7) [asha] = asha # []"
    by (simp add: asha_def)
  have v5: "''break_things'' \<noteq> []" and v6: "''2025-01-01'' \<noteq> []" by simp_all
  have v7: "example_toISODate ''2025-01-01'' = Some ''2025-01-01''"
    by (simp add: example_toISODate_def)
  have f0: "filter ?key (rows (empty_table :: mind_row table)) = []"
    by (simp add: empty_table_def)
  have f3: "filter ?key (rows ?db3) = ?r3 # []" and c3: "1 \<le> m_count ?r3"
    by (simp_all add: asha_def)
  have fm: "filter ?key (rows ?dbm) = ?rm # []" and cm: "m_count ?rm < 1"
    by (simp_all add: asha_def)
  have n: "rows (empty_table :: mind_row table) = []" "next_id (empty_table :: mind_row table) = 1"
    "empty_table\<lparr>rows := xs, next_id := k\<rparr> = \<lparr>rows = xs, next_id = k\<rparr>" for xs :: "mind_row list" and k
    by (simp_all add: empty_table_def)
  have u: "u_name asha = ''asha''" "u_email asha = ''asha@example.com''"
    by (simp_all add: asha_def)
  have V: "startsWith ?h ''Bearer '' \<and> nth_opt (js_split ?h '' '') 1 = Some ''token-of-asha''
      \<and> example_jwt_verify ''token-of-asha'' = Some 7
      \<and> filter (\<lambda>u. u_id u = 7) [asha] = asha # []
      \<and> ''break_things'' \<noteq> [] \<and> ''2025-01-01'' \<noteq> []
      \<and> example_toISODate ''2025-01-01'' = Some ''2025-01-01''"
    by (intro conjI) (fact v1, fact v2, fact v3, fact v4, fact v5, fact v6, fact v7)
  note on_empty = zero_count_is_one [where jwt_verify = example_jwt_verify
      and toISODate = example_toISODate and users = "[asha]" and user = asha and us = "[]"
      and h = ?h and token = "''token-of-asha''" and uid = 7
      and tt = "''break_things''" and d = "''2025-01-01''" and fd = "''2025-01-01''"
      and db = empty_table and r = ?r3 and rs = "[]",
      THEN conjunct2, THEN conjunct2, THEN conjunct2, THEN conjunct2, THEN conjunct2,
      THEN conjunct2, THEN conjunct2, THEN conjunct2, THEN mp, OF V]
  note on_three = zero_count_is_one [where jwt_verify = example_jwt_verify
      and toISODate = example_toISODate and users = "[asha]" and user = asha and us = "[]"
      and h = ?h and token = "''token-of-asha''" and uid = 7
      and tt = "''break_things''" and d = "''2025-01-01''" and fd = "''2025-01-01''"
      and db = ?db3 and r = ?r3 and rs = "[]",
      THEN conjunct2, THEN conjunct2, THEN conjunct2, THEN conjunct2, THEN conjunct2,
      THEN conjunct2, THEN conjunct2, THEN conjunct2, THEN mp, OF V]
  note on_minus = zero_count_is_one [where jwt_verify = example_jwt_verify
      and toISODate = example_toISODate and users = "[asha]" and user = asha and us = "[]"
      and h = ?h and token = "''token-of-asha''" and uid = 7
      and tt = "''break_things''" and d = "''2025-01-01''" and fd = "''2025-01-01''"
      and db = ?dbm and r = ?rm and rs = "[]",
      THEN conjunct2, THEN conjunct2, THEN conjunct2, THEN conjunct2, THEN conjunct2,
      THEN conjunct2, THEN conjunct2, THEN conjunct2, THEN mp, OF V]
  have w0: "mind_tools_sync example_jwt_verify example_toISODate [asha] (Some ?h)
     (Some [\<lparr>a_tracker_type = Some ''break_things'', a_activity_date = Some ''2025-01-01'',
             a_count = Some 0\<rparr>]) empty_table =
     (SyncOk [\<lparr>sr_success = True, sr_message = ''Activity recorded'',
               sr_data = Counter (Some 1) ''break_things'' ''2025-01-01'' 1\<rparr>],
      \<lparr>rows = [\<lparr>m_id = 1, m_user_name = ''asha'', m_email = ''asha@example.com'',
                m_tracker_type = ''break_things'', m_activity_date = ''2025-01-01'',
                m_count = 1\<rparr>], next_id = 2\<rparr>)"
    using on_empty [THEN conjunct2, THEN conjunct1, THEN mp, OF f0]
    by (simp add: n u)
  have wn: "mind_tools_sync example_jwt_verify example_toISODate [asha] (Some ?h)
     (Some [\<lparr>a_tracker_type = Some ''break_things'', a_activity_date = Some ''2025-01-01'',
             a_count = None\<rparr>]) empty_table =
     (SyncOk [\<lparr>sr_success = True, sr_message = ''Activity recorded'',
               sr_data = Counter (Some 1) ''break_things'' ''2025-01-01'' 1\<rparr>],
      \<lparr>rows = [\<lparr>m_id = 1, m_user_name = ''asha'', m_email = ''asha@example.com'',
                m_tracker_type = ''break_things'', m_activity_date = ''2025-01-01'',
                m_count = 1\<rparr>], next_id = 2\<rparr>)"
    using on_empty [THEN conjunct1] w0 by simp
  have w3: "mind_tools_sync example_jwt_verify example_toISODate [asha] (Some ?h)
     (Some [\<lparr>a_tracker_type = Some ''break_things'', a_activity_date = Some ''2025-01-01'',
             a_count = Some 0\<rparr>]) ?db3 =
     (SyncOk [\<lparr>sr_success = True,
               sr_message = ''No update needed (server has higher count)'',
               sr_data = Counter None ''break_things'' ''2025-01-01'' 3\<rparr>], ?db3)"
    using on_three [THEN conjunct2, THEN conjunct2, THEN conjunct2, THEN mp,
        OF conjI [OF f3 c3]]
    by simp
  have wm: "mind_tools_sync example_jwt_verify example_toISODate [asha] (Some ?h)
     (Some [\<lparr>a_tracker_type = Some ''break_things'', a_activity_date = Some ''2025-01-01'',
             a_count = Some 0\<rparr>]) ?dbm =
     (SyncOk [\<lparr>sr_success = True, sr_message = ''Activity updated'',
               sr_data = Counter None ''break_things'' ''2025-01-01'' 1\<rparr>],
      \<lparr>rows = [\<lparr>m_id = 1, m_user_name = ''asha'', m_email = ''asha@example.com'',
                m_tracker_type = ''break_things'', m_activity_date = ''2025-01-01'',
                m_count = 1\<rparr>], next_id = 2\<rparr>)"
    using on_minus [THEN conjunct2, THEN conjunct2, THEN conjunct1, THEN mp,
        OF conjI [OF fm cm]]
    by simp
  show ?thesis
    by (intro conjI) (fact w0, fact wn, fact w3, fact wm)
qed

subsection \<open>Tracker types in the sync route\<close>

text \<open>
  Claim C4 does not hold of the code. The sync handler never compares \<^verbatim>\<open>tracker_type\<close>
  with the enumerated set: an item with the tracker type \<^verbatim>\<open>not_a_tracker\<close> is answered with
  success and a row is inserted for it.
\<close>
theorem sync_accepts_unknown_tracker:
  "''not_a_tracker'' \<notin> set validTrackers
   \<and> mind_tools_sync example_jwt_verify example_toISODate [asha]
       (Some ''Bearer token-of-asha'')
       (Some [\<lparr>a_tracker_type = Some ''not_a_tracker'', a_activity_date = Some ''2025-01-01'',
               a_count = Some 3\<rparr>]) empty_table =
     (SyncOk [\<lparr>sr_success = True, sr_message = ''Activity recorded'',
               sr_data = Counter (Some 1) ''not_a_tracker'' ''2025-01-01'' 3\<rparr>],
      \<lparr>rows = [\<lparr>m_id = 1, m_user_name = ''asha'', m_email = ''asha@example.com'',
                m_tracker_type = ''not_a_tracker'', m_activity_date = ''2025-01-01'',
                m_count = 3\<rparr>],
       next_id = 2\<rparr>)"
  by code_simp

text \<open>
  An item whose date does not convert ends the whole request with status 500: the items after
  it are not processed and no result list is returned, while the rows written before stay.
\<close>
lemma sync_invalid_date_aborts:
  "mind_tools_sync example_jwt_verify example_toISODate [asha]
     (Some ''Bearer token-of-asha'')
     (Some [\<lparr>a_tracker_type = Some ''break_things'', a_activity_date = Some ''2025-01-01'',
             a_count = Some 3\<rparr>,
            \<lparr>a_tracker_type = Some ''break_things'', a_activity_date = Some ''not-a-date'',
             a_count = Some 4\<rparr>,
            \<lparr>a_tracker_type = Some ''make_me_smile'', a_activity_date = Some ''2025-01-01'',
             a_count = Some 1\<rparr>]) empty_table =
   (SyncError 500 ''Error syncing activities'',
    \<lparr>rows = [\<lparr>m_id = 1, m_user_name = ''asha'', m_email = ''asha@example.com'',
              m_tracker_type = ''break_things'', m_activity_date = ''2025-01-01'',
              m_count = 3\<rparr>],
     next_id = 2\<rparr>)"
  by code_simp

text \<open>
  When every date converts, the loop returns one result for each item.
\<close>
lemma sync_loop_one_result_each:
  "list_all (\<lambda>a. truthy (a_tracker_type a) \<and> truthy (a_activity_date a) \<longrightarrow>
               toISODate (the (a_activity_date a)) \<noteq> None) acts \<Longrightarrow>
   \<exists>rs. fst (sync_loop toISODate user acts results db) = Some rs
        \<and> length rs = length results + length acts"
proof (induction acts arbitrary: results db)
  case Nil
  then show ?case by simp
next
  case (Cons a acts)
  from Cons.prems have rest: "list_all (\<lambda>a. truthy (a_tracker_type a) \<and> truthy (a_activity_date a) \<longrightarrow>
               toISODate (the (a_activity_date a)) \<noteq> None) acts"
    by simp
  show ?case
  proof (cases "\<not> truthy (a_tracker_type a) \<or> \<not> truthy (a_activity_date a)")
    case True
    then show ?thesis
      using Cons.IH [OF rest, of "results @ [\<lparr>sr_success = False,
        sr_message = ''Missing required fields'', sr_data = Echo a\<rparr>]" db]
      by auto
  next
    case False
    with Cons.prems obtain fd where fd: "toISODate (the (a_activity_date a)) = Some fd"
      by auto
    let ?s = "sync_activity user (the (a_tracker_type a)) fd (a_count a) db"
    have eq: "sync_loop toISODate user (a # acts) results db =
        sync_loop toISODate user acts (results @ [fst ?s]) (snd ?s)"
      using False fd by (simp split: prod.splits)
    show ?thesis
      unfolding eq using Cons.IH [OF rest, of "results @ [fst ?s]" "snd ?s"] by auto
  qed
qed

end
